theory Spec2Isabelle
  imports Complex_Main "HOL-Library.AList" "HOL-Library.Log_Nat"
begin

section \<open>Option resolution of the swc command-line front end\<close>

text \<open>
  This theory embeds \<^verbatim>\<open>packages/cli/src/swc/options.ts\<close>: the helpers
  \<^verbatim>\<open>unstringify\<close>, \<^verbatim>\<open>loadCLIConfigFile\<close>, \<^verbatim>\<open>verifyArgsErrors\<close>,
  \<^verbatim>\<open>collect\<close> and the exported \<^verbatim>\<open>parserArgs\<close>.

  Conventions of the embedding.
  \<^item> A JavaScript string is a \<open>string\<close>: a list of UTF-16 code units below 256.
  \<^item> A JavaScript value is a \<open>jsval\<close>. A plain object is the list of its own
    properties; a read of an option, \<^verbatim>\<open>opts.name\<close>, is \<open>get\<close>, which yields
    \<open>Undefined\<close> for an absent key: when the call starts, \<^verbatim>\<open>Object.prototype\<close> has
    no member named like an option. After the overrides, which can give it one, the
    options are read through \<open>visible_opts\<close>. The reads and writes at the computed
    keys of an override are \<open>read_prop\<close> and \<open>write_prop\<close>, which know arrays,
    primitives and inherited members. The enumeration order of integer-like keys is
    not modelled (only look-ups are observed).
  \<^item> A JavaScript number is a \<open>jsnum\<close>: \<open>NaN\<close>, an infinity, or the exact rational
    value of a finite double. The sign of zero is not modelled.
  \<^item> What the code obtains from outside the repository is an input of the model:
    the state of the \<^verbatim>\<open>commander\<close> program after \<^verbatim>\<open>program.parse\<close> (option values,
    their sources and the positional arguments) is a \<open>Command\<close>, and the file system,
    \<^verbatim>\<open>JSON.parse\<close>, the string conversion of fractional numbers, arrays and objects
    and what values inherit are a \<open>platform\<close>. The string methods the code calls and
    \<^verbatim>\<open>parseFloat\<close> are functions of the model; the platform tells when a directive
    has put another value in the place of a method that the loop over the directives
    calls.
  \<^item> A call ends in a return, in \<^verbatim>\<open>process.exit\<close> or in an uncaught exception; these
    are the values of \<open>outcome\<close>.
\<close>

subsection \<open>Values\<close>

datatype jsnum = NaN | PosInf | NegInf | Fin rat

datatype jsval =
    Undefined
  | Null
  | Bool bool
  | Num jsnum
  | Str string
  | Arr "jsval option list" "(string \<times> jsval) list"
  | Obj "(string \<times> jsval) list"

type_synonym jsobj = "(string \<times> jsval) list"

text \<open>
  An array is the list of its elements, \<open>None\<close> for a hole, followed by the properties
  it has besides its indices and its length. \<open>array_of\<close> is the array literal.
\<close>

definition array_of :: "jsval list \<Rightarrow> jsval" where
  "array_of vs = Arr (map Some vs) []"

text \<open>Property read \<^verbatim>\<open>o[k]\<close> on a plain object.\<close>

definition get :: "jsobj \<Rightarrow> string \<Rightarrow> jsval" where
  "get obj k = (case map_of obj k of None \<Rightarrow> Undefined | Some v \<Rightarrow> v)"

text \<open>Property write \<^verbatim>\<open>o[k] = v\<close>: an existing key keeps its place, a new one is appended.\<close>

definition set_prop :: "jsobj \<Rightarrow> string \<Rightarrow> jsval \<Rightarrow> jsobj" where
  "set_prop obj k v = AList.update k v obj"

text \<open>
  \<^verbatim>\<open>Object.assign(target, source)\<close> on own properties, which is what an object spread
  \<^verbatim>\<open>{...a, ...b}\<close> and \<^verbatim>\<open>Object.fromEntries\<close> do entry by entry.
\<close>

definition assign :: "jsobj \<Rightarrow> (string \<times> jsval) list \<Rightarrow> jsobj" where
  "assign target entries = foldl (\<lambda>obj (k, v). set_prop obj k v) target entries"

definition fromEntries :: "(string \<times> jsval) list \<Rightarrow> jsobj" where
  "fromEntries entries = assign [] entries"

text \<open>JavaScript truthiness (\<^verbatim>\<open>ToBoolean\<close>).\<close>

fun truthy :: "jsval \<Rightarrow> bool" where
  "truthy Undefined = False"
| "truthy Null = False"
| "truthy (Bool b) = b"
| "truthy (Num n) = (n \<noteq> NaN \<and> n \<noteq> Fin 0)"
| "truthy (Str s) = (s \<noteq> [])"
| "truthy (Arr _ _) = True"
| "truthy (Obj _) = True"

text \<open>\<^verbatim>\<open>typeof v === "string"\<close>.\<close>

fun is_string :: "jsval \<Rightarrow> bool" where
  "is_string (Str _) = True"
| "is_string _ = False"

subsection \<open>String primitives\<close>

text \<open>\<^verbatim>\<open>s.split(sep)\<close> for a one-character separator: never empty, \<^verbatim>\<open>"".split(",")\<close> is \<^verbatim>\<open>[""]\<close>.\<close>

fun split :: "char \<Rightarrow> string \<Rightarrow> string list" where
  "split sep [] = [[]]"
| "split sep (c # cs) =
     (if c = sep then [] # split sep cs
      else (case split sep cs of
              [] \<Rightarrow> [[c]]
            | w # ws \<Rightarrow> (c # w) # ws))"

text \<open>\<^verbatim>\<open>values.join(",")\<close>, the string conversion of an array of strings.\<close>

fun join :: "string list \<Rightarrow> string" where
  "join [] = []"
| "join [w] = w"
| "join (w # ws) = w @ CHR '','' # join ws"

definition isDigit :: "char \<Rightarrow> bool" where
  "isDigit c = (48 \<le> (of_char c :: nat) \<and> (of_char c :: nat) \<le> 57)"

definition decimal_value :: "string \<Rightarrow> int" where
  "decimal_value ds = foldl (\<lambda>a c. 10 * a + ((of_char c :: int) - 48)) 0 ds"

text \<open>
  The array index a property key denotes, if any: the canonical decimal numeral of a
  number below \<open>2 ^ 32 - 1\<close>.
\<close>

definition array_index :: "string \<Rightarrow> nat option" where
  "array_index k =
     (if k \<noteq> [] \<and> list_all isDigit k \<and> (k = ''0'' \<or> hd k \<noteq> CHR ''0'') \<and>
         decimal_value k < 4294967295
      then Some (nat (decimal_value k)) else None)"

text \<open>\<^verbatim>\<open>String(i)\<close> for an array index \<open>i\<close>.\<close>

fun string_of_nat :: "nat \<Rightarrow> string" where
  "string_of_nat n =
     (if n < 10 then [char_of (48 + n)]
      else string_of_nat (n div 10) @ [char_of (48 + n mod 10)])"

declare string_of_nat.simps [simp del]

subsection \<open>The platform and the parsed command line\<close>

text \<open>
  The outcomes of a call. \<open>Exited\<close> is \<^verbatim>\<open>process.exit(code)\<close> together with the lines
  written by \<^verbatim>\<open>console.error\<close> before it. \<open>Returned None\<close> is the bare \<^verbatim>\<open>return;\<close> of
  \<^verbatim>\<open>parserArgs\<close>. \<open>Uncaught_TypeError\<close> and \<open>Uncaught_RangeError\<close> are exceptions that
  nothing catches.
\<close>

datatype 'a outcome =
    Returned 'a
  | Exited nat "string list"
  | Uncaught_TypeError
  | Uncaught_RangeError

text \<open>
  The own properties of the compiler options are values of this theory. What an
  object inherits is the platform's: the built-in prototypes, which a directive can
  reach (\<^verbatim>\<open>-C __proto__.x=1\<close>, \<^verbatim>\<open>-C constructor.x=1\<close>) and then changes, and the
  prototype that a directive gives an object (\<^verbatim>\<open>-C jsc.__proto__={}\<close>). So the platform
  answers for a \<open>history\<close>: the compiler options that the loop over the directives
  started with, and the directives applied so far, each as its key parts and its value.
  With no directive applied, the built-in objects are as the call found them. Once the
  loop goes on in an inherited object, it ends there in one of the three ways of
  \<open>ending\<close>: with the assignment at the last segment, or with an exception.
\<close>

type_synonym history = "(string \<times> jsval) list \<times> (string list \<times> jsval) list"

datatype ending = Ends | Throws_TypeError | Throws_RangeError

record platform =
  readFileSync :: "string \<Rightarrow> string option"
    \<comment> \<open>\<^verbatim>\<open>readFileSync(resolve(process.cwd(), path), "utf-8")\<close>; \<open>None\<close> when it throws\<close>
  JSON_parse :: "string \<Rightarrow> jsval option"
    \<comment> \<open>\<^verbatim>\<open>JSON.parse\<close>; \<open>None\<close> when it throws a \<^verbatim>\<open>SyntaxError\<close>\<close>
  ToString_other :: "jsval \<Rightarrow> string + string"
    \<comment> \<open>\<^verbatim>\<open>ToString\<close> of a number that is not an integer below \<open>10 ^ 21\<close>, of an array
        or of an object; \<open>Inl\<close> is the message of the \<^verbatim>\<open>TypeError\<close> it throws\<close>
  entries_of_null :: string
    \<comment> \<open>the message of the \<^verbatim>\<open>TypeError\<close> that \<^verbatim>\<open>Object.entries(null)\<close> throws\<close>
  ToNumber_other :: "jsval \<Rightarrow> string + jsnum"
    \<comment> \<open>\<^verbatim>\<open>ToNumber\<close> of a string, an array or an object; \<open>Inl\<close> is the message of the
        \<^verbatim>\<open>TypeError\<close> it throws\<close>
  inherited :: "history \<Rightarrow> string list \<Rightarrow> jsval \<Rightarrow> string \<Rightarrow> bool"
    \<comment> \<open>\<open>inherited h path value key\<close>: whether reading the property \<open>key\<close> of
        \<open>value\<close>, which is found at \<open>path\<close> in the compiler options and does not own
        \<open>key\<close>, finds an inherited member (for \<^verbatim>\<open>__proto__\<close>: the prototype)\<close>
  beyond :: "history \<Rightarrow> string list \<Rightarrow> jsval \<Rightarrow> string \<Rightarrow> string list \<Rightarrow> jsval \<Rightarrow> ending"
    \<comment> \<open>\<open>beyond h path value key rest v\<close>: how the loop of lines 383 to 392 ends once
        \<open>options\<close> is the inherited member \<open>value[key]\<close>, with the segments \<open>rest\<close>
        to go and \<open>v\<close> to assign\<close>
  methods_intact :: "history \<Rightarrow> string \<Rightarrow> bool"
    \<comment> \<open>whether the method of that name (\<^verbatim>\<open>indexOf\<close>, \<^verbatim>\<open>substring\<close> and \<^verbatim>\<open>split\<close> of
        strings, \<^verbatim>\<open>entries\<close> of arrays) is still a function\<close>
  inherited_option :: "history \<Rightarrow> string \<Rightarrow> jsval"
    \<comment> \<open>\<^verbatim>\<open>opts[name]\<close> for a name that \<^verbatim>\<open>opts\<close> does not own: what
        \<^verbatim>\<open>Object.prototype\<close> holds under it, \<^verbatim>\<open>undefined\<close> if nothing\<close>

record Command =
  program_opts :: jsobj
    \<comment> \<open>\<^verbatim>\<open>program.opts()\<close> after \<^verbatim>\<open>program.parse(args)\<close>\<close>
  program_getOptionValueSource :: "string \<Rightarrow> string option"
    \<comment> \<open>\<^verbatim>\<open>program.getOptionValueSource(key)\<close>; \<open>None\<close> for \<^verbatim>\<open>undefined\<close>\<close>
  program_args :: "string list"
    \<comment> \<open>\<^verbatim>\<open>program.args\<close>, the positional arguments\<close>

text \<open>\<^verbatim>\<open>ToString\<close>, as a template literal and \<^verbatim>\<open>parseFloat\<close> apply it to their argument.\<close>

definition string_of_int :: "int \<Rightarrow> string" where
  "string_of_int i =
     (if i < 0 then CHR ''-'' # string_of_nat (nat (- i)) else string_of_nat (nat i))"

fun ToString :: "platform \<Rightarrow> jsval \<Rightarrow> string + string" where
  "ToString P (Str s) = Inr s"
| "ToString P (Bool b) = Inr (if b then ''true'' else ''false'')"
| "ToString P Null = Inr ''null''"
| "ToString P Undefined = Inr ''undefined''"
| "ToString P (Num NaN) = Inr ''NaN''"
| "ToString P (Num PosInf) = Inr ''Infinity''"
| "ToString P (Num NegInf) = Inr ''-Infinity''"
| "ToString P (Num (Fin r)) =
     (if r = of_int \<lfloor>r\<rfloor> \<and> \<bar>r\<bar> < 10 ^ 21 then Inr (string_of_int \<lfloor>r\<rfloor>)
      else ToString_other P (Num (Fin r)))"
| "ToString P v = ToString_other P v"

text \<open>\<^verbatim>\<open>Object.entries(v)\<close>: own enumerable string-keyed properties after \<^verbatim>\<open>ToObject\<close>.\<close>

fun entries :: "platform \<Rightarrow> jsval \<Rightarrow> string + (string \<times> jsval) list" where
  "entries P (Obj kvs) = Inr kvs"
| "entries P (Arr elems named) =
     Inr (List.map_filter (\<lambda>(i, e). map_option (\<lambda>v. (string_of_nat i, v)) e)
            (zip [0..<length elems] elems) @ named)"
| "entries P (Str s) = Inr (zip (map string_of_nat [0..<length s]) (map (\<lambda>c. Str [c]) s))"
| "entries P (Num _) = Inr []"
| "entries P (Bool _) = Inr []"
| "entries P Null = Inl (entries_of_null P)"
| "entries P Undefined = Inl (entries_of_null P)"

subsection \<open>unstringify\<close>

definition unstringify :: "platform \<Rightarrow> string \<Rightarrow> jsval" where
  "unstringify P val = (case JSON_parse P val of Some v \<Rightarrow> v | None \<Rightarrow> Str val)"

subsection \<open>loadCLIConfigFile\<close>

definition is_lower :: "char \<Rightarrow> bool" where
  "is_lower c = (97 \<le> (of_char c :: nat) \<and> (of_char c :: nat) \<le> 122)"

text \<open>\<^verbatim>\<open>toUpperCase\<close> on the one character a match captures: a hyphen or \<^verbatim>\<open>a-z\<close>.\<close>

definition toUpperCase :: "char \<Rightarrow> char" where
  "toUpperCase c = (if is_lower c then char_of ((of_char c :: nat) - 32) else c)"

text \<open>
  \<^verbatim>\<open>key.replace(/(-[-a-z])/g, (_, m) => m.substring(1).toUpperCase())\<close>: the key is
  scanned from the left; a hyphen followed by a hyphen or by a lower-case ASCII letter
  is a match, replaced by the upper-cased second character, and the scan resumes after
  the match.
\<close>

fun camelCaseKey :: "string \<Rightarrow> string" where
  "camelCaseKey (c # d # rest) =
     (if c = CHR ''-'' \<and> (d = CHR ''-'' \<or> is_lower d)
      then toUpperCase d # camelCaseKey rest
      else c # camelCaseKey (d # rest))"
| "camelCaseKey cs = cs"

definition cannot_read :: "string \<Rightarrow> string" where
  "cannot_read path = ''Cannot read CLI config file \"'' @ path @ ''\".''"

definition not_well_formed :: "string \<Rightarrow> string" where
  "not_well_formed path = ''CLI config file \"'' @ path @ ''\" is not a well-formed JSON file.''"

text \<open>
  In \<open>read_contents\<close> and \<open>loadCLIConfigFile\<close>, \<open>Inl\<close> carries the \<^verbatim>\<open>message\<close> of the
  exception thrown. The file is read only when \<open>path\<close> is a string: \<^verbatim>\<open>resolve\<close> throws on any other
  argument, inside the first \<^verbatim>\<open>try\<close>, whose \<^verbatim>\<open>catch\<close> puts \<open>path\<close> into a template
  literal.
\<close>

definition read_contents :: "platform \<Rightarrow> jsval \<Rightarrow> string + string" where
  "read_contents P path =
     (case path of
        Str p \<Rightarrow>
          (case readFileSync P p of
             Some contents \<Rightarrow> Inr contents
           | None \<Rightarrow> Inl (cannot_read p))
      | _ \<Rightarrow>
          (case ToString P path of
             Inr p \<Rightarrow> Inl (cannot_read p)
           | Inl e \<Rightarrow> Inl e))"

text \<open>The two lists the loop over \<^verbatim>\<open>Object.entries(opts)\<close> fills.\<close>

definition defaults :: "Command \<Rightarrow> jsobj \<Rightarrow> (string \<times> jsval) list" where
  "defaults program opts =
     filter (\<lambda>pair. program_getOptionValueSource program (fst pair) = Some ''default'') opts"

definition provided :: "Command \<Rightarrow> jsobj \<Rightarrow> (string \<times> jsval) list" where
  "provided program opts =
     filter (\<lambda>pair. program_getOptionValueSource program (fst pair) \<noteq> Some ''default'') opts"

text \<open>The configuration object after the conversion of its keys.\<close>

definition camelCaseEntries :: "(string \<times> jsval) list \<Rightarrow> jsobj" where
  "camelCaseEntries es = fromEntries (map (\<lambda>(key, value). (camelCaseKey key, value)) es)"

text \<open>\<^verbatim>\<open>{...Object.fromEntries(defaults), ...configOpts, ...Object.fromEntries(provided)}\<close>.\<close>

definition merge :: "Command \<Rightarrow> jsobj \<Rightarrow> jsobj \<Rightarrow> jsobj" where
  "merge program opts configOpts =
     assign (assign (assign [] (fromEntries (defaults program opts))) configOpts)
       (fromEntries (provided program opts))"

definition loadCLIConfigFile :: "platform \<Rightarrow> Command \<Rightarrow> jsobj \<Rightarrow> jsval \<Rightarrow> string + jsobj" where
  "loadCLIConfigFile P program opts path =
     (case read_contents P path of
        Inl e \<Rightarrow> Inl e
      | Inr contents \<Rightarrow>
          (case JSON_parse P contents of
             None \<Rightarrow>
               (case ToString P path of
                  Inr p \<Rightarrow> Inl (not_well_formed p)
                | Inl e \<Rightarrow> Inl e)
           | Some configOpts \<Rightarrow>
               (case entries P configOpts of
                  Inl e \<Rightarrow> Inl e
                | Inr es \<Rightarrow> Inr (merge program opts (camelCaseEntries es)))))"

subsection \<open>verifyArgsErrors\<close>

text \<open>
  \<open>None\<close>: the call returns. \<open>Some (code, lines)\<close>: it has written \<open>lines\<close> to the error
  stream and left the process with \<open>code\<close>.
\<close>

definition verifyArgsErrors :: "string list \<Rightarrow> (nat \<times> string list) option" where
  "verifyArgsErrors errors =
     (if errors \<noteq> [] then Some (2, ''swc:'' # map (\<lambda>error. ''  '' @ error) errors) else None)"

subsection \<open>collect\<close>

text \<open>
  \<^verbatim>\<open>previousValue.concat(values)\<close> for an array \<open>values\<close> of strings. On an array it is
  \<^verbatim>\<open>Array.prototype.concat\<close>, which copies the elements of both; on a string it is
  \<^verbatim>\<open>String.prototype.concat\<close>, which appends the string conversion of \<open>values\<close>; a
  number, a boolean or an object has no method of that name (a property \<^verbatim>\<open>concat\<close> that
  \<^verbatim>\<open>JSON.parse\<close> made is not a function), and the call throws.
\<close>

fun concat_method :: "jsval \<Rightarrow> string list \<Rightarrow> jsval outcome" where
  "concat_method (Arr elems named) values =
     (if map_of named ''concat'' = None
      then Returned (Arr (elems @ map (\<lambda>w. Some (Str w)) values) [])
      else Uncaught_TypeError)"
| "concat_method (Str s) values = Returned (Str (s @ join values))"
| "concat_method _ values = Uncaught_TypeError"

text \<open>\<^verbatim>\<open>collect(value, previousValue)\<close>: the value parser of the list-valued options.\<close>

definition collect :: "jsval \<Rightarrow> jsval \<Rightarrow> jsval outcome" where
  "collect value previousValue =
     (case value of
        Str s \<Rightarrow>
          (let values = split (CHR '','') s
           in if truthy previousValue then concat_method previousValue values
              else Returned (array_of (map Str values)))
      | _ \<Rightarrow> Returned previousValue)"

text \<open>
  What \<^verbatim>\<open>commander\<close> makes of the occurrences of one of these flags, which are
  declared with an optional value (\<^verbatim>\<open>--ignore [list]\<close>): in argument order, an
  occurrence with a value stores what the value parser returns for that value and
  the option's value so far, and an occurrence without a value stores \<^verbatim>\<open>true\<close>
  without a call of the parser. The option has no default: its value is \<^verbatim>\<open>undefined\<close>
  before the first occurrence. An occurrence is \<open>Some\<close> of its value, or \<open>None\<close>.
\<close>

fun collect_from :: "jsval \<Rightarrow> string option list \<Rightarrow> jsval outcome" where
  "collect_from previousValue [] = Returned previousValue"
| "collect_from previousValue (None # occurrences) = collect_from (Bool True) occurrences"
| "collect_from previousValue (Some v # occurrences) =
     (case collect (Str v) previousValue of
        Returned stored \<Rightarrow> collect_from stored occurrences
      | Exited code lines \<Rightarrow> Exited code lines
      | Uncaught_TypeError \<Rightarrow> Uncaught_TypeError
      | Uncaught_RangeError \<Rightarrow> Uncaught_RangeError)"

definition collect_occurrences :: "string option list \<Rightarrow> jsval outcome" where
  "collect_occurrences occurrences = collect_from Undefined occurrences"

subsection \<open>parseFloat\<close>

text \<open>
  The built-in \<^verbatim>\<open>parseFloat\<close> on a string, after ECMA-262: leading white space is
  dropped, the longest prefix that is a \<^verbatim>\<open>StrDecimalLiteral\<close> is read (\<open>NaN\<close> when
  there is none), and its mathematical value is rounded to the nearest double, ties to
  even, as the engines do.
\<close>

definition isWhiteSpace :: "char \<Rightarrow> bool" where
  "isWhiteSpace c = ((of_char c :: nat) \<in> {9, 10, 11, 12, 13, 32, 160})"

definition digits_value :: "string \<Rightarrow> int" where
  "digits_value ds = foldl (\<lambda>a c. 10 * a + ((of_char c :: int) - 48)) 0 ds"

text \<open>
  \<open>to_double neg n k\<close> is the double nearest to \<open>n * 10 ^ k\<close> for \<open>0 \<le> n\<close>, negated
  when \<open>neg\<close>: with \<open>p / q\<close> that value and \<open>e\<close> the exponent of its leading bit, the
  significand \<open>m\<close> is \<open>p / q\<close> in units of \<open>2 ^ s\<close>, \<open>s = max e (-1022) - 52\<close>,
  rounded to an integer.
\<close>

definition to_double :: "bool \<Rightarrow> int \<Rightarrow> int \<Rightarrow> jsnum" where
  "to_double neg n k =
     (let p = (if 0 \<le> k then n * 10 ^ nat k else n);
          q = (if 0 \<le> k then 1 else 10 ^ nat (- k))
      in if p = 0 then Fin 0
         else
           (let e0 = bitlen p - bitlen q;
                e = (if (if 0 \<le> e0 then q * 2 ^ nat e0 \<le> p else q \<le> p * 2 ^ nat (- e0))
                     then e0 else e0 - 1);
                s = max e (- 1022) - 52;
                num = (if 0 \<le> s then p else p * 2 ^ nat (- s));
                den = (if 0 \<le> s then q * 2 ^ nat s else q);
                m0 = num div den;
                r = num mod den;
                m = (if den < 2 * r \<or> (2 * r = den \<and> odd m0) then m0 + 1 else m0)
            in if 971 < s \<or> (s = 971 \<and> m = 2 ^ 53) then (if neg then NegInf else PosInf)
               else Fin ((if neg then - 1 else 1) *
                         (if 0 \<le> s then of_int (m * 2 ^ nat s)
                          else of_int m / of_int (2 ^ nat (- s))))))"

text \<open>The value of the \<^verbatim>\<open>ExponentPart\<close> that \<open>r\<close> starts with, 0 when it starts with none.\<close>

definition exponent_part :: "string \<Rightarrow> int" where
  "exponent_part r =
     (case r of
        [] \<Rightarrow> 0
      | c # r' \<Rightarrow>
          if c = CHR ''e'' \<or> c = CHR ''E'' then
            (case r' of
               [] \<Rightarrow> 0
             | d # r'' \<Rightarrow>
                 if d = CHR ''-'' then - digits_value (takeWhile isDigit r'')
                 else if d = CHR ''+'' then digits_value (takeWhile isDigit r'')
                 else digits_value (takeWhile isDigit r'))
          else 0)"

definition parseFloat :: "string \<Rightarrow> jsnum" where
  "parseFloat inputString =
     (let trimmed = dropWhile isWhiteSpace inputString;
          neg = (trimmed \<noteq> [] \<and> hd trimmed = CHR ''-'');
          u = (if trimmed \<noteq> [] \<and> (hd trimmed = CHR ''-'' \<or> hd trimmed = CHR ''+'')
               then tl trimmed else trimmed)
      in if take 8 u = ''Infinity'' then (if neg then NegInf else PosInf)
         else
           (let ip = takeWhile isDigit u;
                r1 = dropWhile isDigit u;
                fp = (case r1 of
                        [] \<Rightarrow> []
                      | c # r \<Rightarrow> if c = CHR ''.'' then takeWhile isDigit r else []);
                r2 = (case r1 of
                        [] \<Rightarrow> []
                      | c # r \<Rightarrow> if c = CHR ''.'' then dropWhile isDigit r else r1)
            in if ip = [] \<and> fp = [] then NaN
               else to_double neg (digits_value (ip @ fp))
                      (exponent_part r2 - int (length fp))))"

text \<open>\<^verbatim>\<open>Number.isInteger(n)\<close> and \<^verbatim>\<open>n < 0\<close>.\<close>

fun isInteger :: "jsnum \<Rightarrow> bool" where
  "isInteger (Fin r) = (r = of_int \<lfloor>r\<rfloor>)"
| "isInteger _ = False"

fun less_zero :: "jsnum \<Rightarrow> bool" where
  "less_zero (Fin r) = (r < 0)"
| "less_zero NegInf = True"
| "less_zero _ = False"

subsection \<open>parserArgs\<close>

definition DEFAULT_EXTENSIONS :: "string list" where
  "DEFAULT_EXTENSIONS =
     [''.js'', ''.jsx'', ''.es6'', ''.es'', ''.mjs'', ''.ts'', ''.tsx'', ''.cts'', ''.mts'']"

record CliOptions =
  outDir :: jsval
  outFile :: jsval
  stripLeadingPaths :: bool
  filename :: jsval
  filenames :: "string list"
  sync :: bool
  workers :: "jsnum option"
  sourceMapTarget :: jsval
  extensions :: jsval
  watch :: bool
  copyFiles :: bool
  outFileExtension :: jsval
  includeDotfiles :: bool
  deleteDirOnStart :: bool
  quiet :: bool
  only :: jsval
  ignore :: jsval

text \<open>
  Lines 295 to 304: the options, merged with the CLI configuration file when
  \<^verbatim>\<open>opts.cliConfigFile\<close> is truthy. \<open>Inl\<close> is the message handed to \<^verbatim>\<open>verifyArgsErrors\<close>.
\<close>

definition load_opts :: "platform \<Rightarrow> Command \<Rightarrow> string + jsobj" where
  "load_opts P program =
     (let opts = program_opts program
      in if truthy (get opts ''cliConfigFile'')
         then loadCLIConfigFile P program opts (get opts ''cliConfigFile'')
         else Inr opts)"

definition stdin_message :: string where
  "stdin_message = ''stdin compilation requires either -f/--filename [filename] or --no-swcrc''"

definition workers_message :: "string \<Rightarrow> string" where
  "workers_message raw = ''--workers must be a positive integer (found '' @ raw @ '')''"

text \<open>Lines 309 to 336: the messages pushed by the checks on the options, in order.\<close>

definition option_errors :: "jsobj \<Rightarrow> string list \<Rightarrow> string list" where
  "option_errors opts files =
     (if truthy (get opts ''outDir'') \<and> files = []
      then [''--out-dir requires filenames''] else []) @
     (if truthy (get opts ''outFile'') \<and> truthy (get opts ''outDir'')
      then [''--out-file and --out-dir cannot be used together''] else []) @
     (if truthy (get opts ''watch'')
      then (if \<not> truthy (get opts ''outFile'') \<and> \<not> truthy (get opts ''outDir'')
            then [''--watch requires --out-file or --out-dir''] else []) @
           (if files = [] then [''--watch requires filenames''] else [])
      else []) @
     (if \<not> truthy (get opts ''outDir'') \<and> length files = 0 \<and>
         \<not> is_string (get opts ''filename'') \<and> get opts ''swcrc'' \<noteq> Bool False
      then [stdin_message] else [])"

text \<open>
  Lines 338 to 348: the worker count and the message pushed for it. \<open>None\<close> is the
  \<^verbatim>\<open>TypeError\<close> of a value that has no string conversion.
\<close>

definition parse_workers :: "platform \<Rightarrow> jsobj \<Rightarrow> (jsnum option \<times> string list) option" where
  "parse_workers P opts =
     (case get opts ''workers'' of
        Undefined \<Rightarrow> Some (None, [])
      | Null \<Rightarrow> Some (None, [])
      | raw \<Rightarrow>
          (case ToString P raw of
             Inl _ \<Rightarrow> None
           | Inr s \<Rightarrow>
               (let workers = parseFloat s
                in Some (Some workers,
                         if \<not> isInteger workers \<or> less_zero workers
                         then [workers_message s] else []))))"

text \<open>Lines 352 to 365: the compiler options before the overrides.\<close>

definition initial_swcOptions :: "jsobj \<Rightarrow> jsobj" where
  "initial_swcOptions opts =
     (let swcOptions =
            [(''jsc'', Obj [(''parser'', Undefined), (''transform'', Obj [])]),
             (''sourceFileName'', get opts ''sourceFileName''),
             (''sourceRoot'', get opts ''sourceRoot''),
             (''configFile'', get opts ''configFile''),
             (''swcrc'', get opts ''swcrc'')]
      in if get opts ''sourceMaps'' \<noteq> Undefined
         then set_prop swcOptions ''sourceMaps'' (get opts ''sourceMaps'')
         else swcOptions)"

text \<open>\<^verbatim>\<open>s.indexOf(c)\<close>, \<open>None\<close> for \<open>-1\<close>.\<close>

fun indexOf :: "string \<Rightarrow> char \<Rightarrow> nat option" where
  "indexOf [] c = None"
| "indexOf (x # xs) c = (if x = c then Some 0 else map_option Suc (indexOf xs c))"

text \<open>Lines 369 to 378: the key and the value of one override.\<close>

definition parse_directive :: "platform \<Rightarrow> string \<Rightarrow> string \<times> jsval" where
  "parse_directive P cfg =
     (case indexOf cfg (CHR ''='') of
        None \<Rightarrow> (cfg, Bool True)
      | Some i \<Rightarrow> (take i cfg, unstringify P (drop (i + 1) cfg)))"

text \<open>
  The property reads and writes of the loop in lines 383 to 392, \<^verbatim>\<open>options[keyPart]\<close>
  and \<^verbatim>\<open>options[keyPart] = v\<close>, on any value \<open>options\<close> may hold. The module is strict
  code, and the built-in prototypes are taken as the platform provides them, without
  properties added before the call.

  \<open>own_property\<close> is the property a value has itself: an entry of an object; an
  element, the length or a named property of an array; a character or the length of
  a string.
\<close>

fun own_property :: "jsval \<Rightarrow> string \<Rightarrow> jsval option" where
  "own_property (Obj props) k = map_of props k"
| "own_property (Arr elems named) k =
     (case array_index k of
        Some i \<Rightarrow> (if i < length elems then elems ! i else None)
      | None \<Rightarrow>
          if k = ''length'' then Some (Num (Fin (of_nat (length elems))))
          else map_of named k)"
| "own_property (Str s) k =
     (case array_index k of
        Some i \<Rightarrow> (if i < length s then Some (Str [s ! i]) else None)
      | None \<Rightarrow> if k = ''length'' then Some (Num (Fin (of_nat (length s)))) else None)"
| "own_property _ k = None"

text \<open>
  A read finds the own property, or else an inherited member, or else \<^verbatim>\<open>undefined\<close>;
  on \<^verbatim>\<open>null\<close> and \<^verbatim>\<open>undefined\<close> it throws.
\<close>

datatype lookup = Found jsval | Inherited | Throws

definition read_prop :: "platform \<Rightarrow> history \<Rightarrow> string list \<Rightarrow> jsval \<Rightarrow> string \<Rightarrow> lookup" where
  "read_prop P h path options k =
     (if options = Null \<or> options = Undefined then Throws
      else (case own_property options k of
              Some v \<Rightarrow> Found v
            | None \<Rightarrow> if inherited P h path options k then Inherited else Found Undefined))"

text \<open>\<^verbatim>\<open>ToNumber\<close>, which a write to the length of an array applies to the value.\<close>

fun ToNumber :: "platform \<Rightarrow> jsval \<Rightarrow> string + jsnum" where
  "ToNumber P Undefined = Inr NaN"
| "ToNumber P Null = Inr (Fin 0)"
| "ToNumber P (Bool b) = Inr (Fin (if b then 1 else 0))"
| "ToNumber P (Num n) = Inr n"
| "ToNumber P v = ToNumber_other P v"

text \<open>
  \<^verbatim>\<open>array.length = v\<close>: a \<^verbatim>\<open>RangeError\<close> unless \<open>v\<close> converts to an integer from 0 to
  \<open>2 ^ 32 - 1\<close>, to which the array is then cut or extended with holes.
\<close>

definition set_length :: "platform \<Rightarrow> jsval option list \<Rightarrow> jsobj \<Rightarrow> jsval \<Rightarrow> jsval outcome" where
  "set_length P elems named v =
     (case ToNumber P v of
        Inl _ \<Rightarrow> Uncaught_TypeError
      | Inr n \<Rightarrow>
          (case n of
             Fin r \<Rightarrow>
               if r = of_int \<lfloor>r\<rfloor> \<and> 0 \<le> r \<and> r < 4294967296
               then Returned (Arr (take (nat \<lfloor>r\<rfloor>) elems @
                                   replicate (nat \<lfloor>r\<rfloor> - length elems) None) named)
               else Uncaught_RangeError
           | _ \<Rightarrow> Uncaught_RangeError))"

text \<open>
  \<^verbatim>\<open>options.__proto__ = v\<close> reaches the setter of \<^verbatim>\<open>Object.prototype\<close> when \<open>options\<close>
  does not own \<^verbatim>\<open>__proto__\<close> and inherits it. The setter leaves every own property as
  it is: it replaces the prototype of an object or array when \<open>v\<close> is an object or
  \<^verbatim>\<open>null\<close>, which the platform finds in the history, and does nothing otherwise.
\<close>

definition reaches_setter :: "platform \<Rightarrow> history \<Rightarrow> string list \<Rightarrow> jsval \<Rightarrow> string \<Rightarrow> bool" where
  "reaches_setter P h path options k =
     (k = ''__proto__'' \<and> own_property options k = None \<and> inherited P h path options k)"

text \<open>
  A write returns the value written to. An object or an array gets or changes an own
  property (the members of the built-in prototypes are writable, so that an inherited
  member does not stand in the way); an index beyond the end of an array leaves holes
  before it. A primitive takes no property: the write throws, unless it reaches the
  setter, which returns without effect.
\<close>

fun write_prop :: "platform \<Rightarrow> history \<Rightarrow> string list \<Rightarrow> jsval \<Rightarrow> string \<Rightarrow> jsval \<Rightarrow> jsval outcome" where
  "write_prop P h path (Obj props) k v =
     (if reaches_setter P h path (Obj props) k then Returned (Obj props)
      else Returned (Obj (set_prop props k v)))"
| "write_prop P h path (Arr elems named) k v =
     (case array_index k of
        Some i \<Rightarrow>
          Returned (Arr (if i < length elems then elems[i := Some v]
                         else elems @ replicate (i - length elems) None @ [Some v]) named)
      | None \<Rightarrow>
          if k = ''length'' then set_length P elems named v
          else if reaches_setter P h path (Arr elems named) k then Returned (Arr elems named)
          else Returned (Arr elems (set_prop named k v)))"
| "write_prop P h path Null k v = Uncaught_TypeError"
| "write_prop P h path Undefined k v = Uncaught_TypeError"
| "write_prop P h path primitive k v =
     (if reaches_setter P h path primitive k then Returned primitive else Uncaught_TypeError)"

text \<open>
  The value of \<open>options\<close> once the object held by its own property \<open>k\<close> has become
  \<open>child\<close>: in the code the nested object is changed in place; here the property is
  given the changed object.
\<close>

fun replace_prop :: "jsval \<Rightarrow> string \<Rightarrow> jsval \<Rightarrow> jsval" where
  "replace_prop (Obj props) k child = Obj (set_prop props k child)"
| "replace_prop (Arr elems named) k child =
     (case array_index k of
        Some i \<Rightarrow> Arr (elems[i := Some child]) named
      | None \<Rightarrow> if k = ''length'' then Arr elems named else Arr elems (set_prop named k child))"
| "replace_prop options k child = options"

text \<open>
  Lines 380 to 392: the walk along \<open>keyParts\<close>, as a function of the value \<open>options\<close>
  starts with, which is found at \<open>path\<close> in the compiler options; it returns that
  value as the walk leaves it. At a segment that is not the last, \<^verbatim>\<open>options[keyPart]\<close>
  is read, given an empty object when the read yields \<^verbatim>\<open>undefined\<close>, and read again
  for the value to go on with. When that value is an inherited member, the loop goes
  on outside the own properties, which stay as they are. The objects of the compiler
  options form a tree, so no other reference observes the writes.
\<close>

definition goes_beyond ::
  "platform \<Rightarrow> history \<Rightarrow> string list \<Rightarrow> jsval \<Rightarrow> string \<Rightarrow> string list \<Rightarrow> jsval \<Rightarrow> jsval outcome" where
  "goes_beyond P h path options keyPart rest v =
     (case beyond P h path options keyPart rest v of
        Ends \<Rightarrow> Returned options
      | Throws_TypeError \<Rightarrow> Uncaught_TypeError
      | Throws_RangeError \<Rightarrow> Uncaught_RangeError)"

fun walk :: "platform \<Rightarrow> history \<Rightarrow> string list \<Rightarrow> string list \<Rightarrow> jsval \<Rightarrow> jsval \<Rightarrow> jsval outcome" where
  "walk P h path [] v options = Returned options"
| "walk P h path [keyPart] v options = write_prop P h path options keyPart v"
| "walk P h path (keyPart # rest) v options =
     (case read_prop P h path options keyPart of
        Throws \<Rightarrow> Uncaught_TypeError
      | Inherited \<Rightarrow> goes_beyond P h path options keyPart rest v
      | Found found \<Rightarrow>
          (case (if found = Undefined then write_prop P h path options keyPart (Obj [])
                 else Returned options) of
             Returned options' \<Rightarrow>
               (case read_prop P h path options' keyPart of
                  Throws \<Rightarrow> Uncaught_TypeError
                | Inherited \<Rightarrow> goes_beyond P h path options' keyPart rest v
                | Found child \<Rightarrow>
                    (case walk P h (path @ [keyPart]) rest v child of
                       Returned child' \<Rightarrow> Returned (replace_prop options' keyPart child')
                     | Exited code lines \<Rightarrow> Exited code lines
                     | Uncaught_TypeError \<Rightarrow> Uncaught_TypeError
                     | Uncaught_RangeError \<Rightarrow> Uncaught_RangeError))
           | Exited code lines \<Rightarrow> Exited code lines
           | Uncaught_TypeError \<Rightarrow> Uncaught_TypeError
           | Uncaught_RangeError \<Rightarrow> Uncaught_RangeError))"

text \<open>The walk from an object, which stays one, as a function of its own properties.\<close>

fun properties :: "jsval \<Rightarrow> jsobj" where
  "properties (Obj props) = props"
| "properties _ = []"

definition assign_path ::
  "platform \<Rightarrow> history \<Rightarrow> string list \<Rightarrow> string list \<Rightarrow> jsval \<Rightarrow> jsobj \<Rightarrow> jsobj outcome" where
  "assign_path P h path keyParts v options =
     (case walk P h path keyParts v (Obj options) of
        Returned options' \<Rightarrow> Returned (properties options')
      | Exited code lines \<Rightarrow> Exited code lines
      | Uncaught_TypeError \<Rightarrow> Uncaught_TypeError
      | Uncaught_RangeError \<Rightarrow> Uncaught_RangeError)"

text \<open>
  Lines 369 to 381 call \<^verbatim>\<open>cfg.indexOf\<close>, \<^verbatim>\<open>cfg.substring\<close> when \<open>cfg\<close> has a \<^verbatim>\<open>=\<close>,
  \<^verbatim>\<open>key.split\<close> and \<^verbatim>\<open>keyParts.entries\<close>. They are the built-in methods unless an
  earlier directive has put another value in their place, which is no function.
\<close>

definition callable :: "platform \<Rightarrow> history \<Rightarrow> string \<Rightarrow> bool" where
  "callable P h cfg =
     (methods_intact P h ''indexOf'' \<and>
      (if CHR ''='' \<in> set cfg then methods_intact P h ''substring'' else True) \<and>
      methods_intact P h ''split'' \<and> methods_intact P h ''entries'')"

text \<open>The key parts and the value of a directive, as the history keeps them.\<close>

definition directive :: "platform \<Rightarrow> string \<Rightarrow> string list \<times> jsval" where
  "directive P cfg = (split (CHR ''.'') (fst (parse_directive P cfg)), snd (parse_directive P cfg))"

text \<open>
  Lines 368 to 393: the loop over the elements of \<^verbatim>\<open>opts.config\<close>, from the compiler
  options \<open>start\<close>, after the directives \<open>applied\<close>. An element that is not a string
  has no usable \<^verbatim>\<open>indexOf\<close>, \<^verbatim>\<open>substring\<close> or \<^verbatim>\<open>split\<close>.
\<close>

fun apply_overrides ::
  "platform \<Rightarrow> jsobj \<Rightarrow> (string list \<times> jsval) list \<Rightarrow> jsval list \<Rightarrow> jsobj \<Rightarrow> jsobj outcome" where
  "apply_overrides P start applied [] swcOptions = Returned swcOptions"
| "apply_overrides P start applied (Str cfg # cfgs) swcOptions =
     (if \<not> callable P (start, applied) cfg then Uncaught_TypeError
      else
        (let (key, v) = parse_directive P cfg
         in (case assign_path P (start, applied) [] (split (CHR ''.'') key) v swcOptions of
               Returned swcOptions' \<Rightarrow>
                 apply_overrides P start (applied @ [directive P cfg]) cfgs swcOptions'
             | other \<Rightarrow> other)))"
| "apply_overrides P start applied (_ # cfgs) swcOptions = Uncaught_TypeError"

text \<open>What \<^verbatim>\<open>for (const cfg of v)\<close> iterates over; \<open>None\<close> when \<open>v\<close> is not iterable.\<close>

fun iterate :: "jsval \<Rightarrow> jsval list option" where
  "iterate (Arr elems named) = Some (map (\<lambda>e. case e of Some v \<Rightarrow> v | None \<Rightarrow> Undefined) elems)"
| "iterate (Str s) = Some (map (\<lambda>c. Str [c]) s)"
| "iterate _ = None"

text \<open>Lines 367 to 394.\<close>

definition override_swcOptions :: "platform \<Rightarrow> jsobj \<Rightarrow> jsobj \<Rightarrow> jsobj outcome" where
  "override_swcOptions P opts swcOptions =
     (if truthy (get opts ''config'')
      then (case iterate (get opts ''config'') of
              None \<Rightarrow> Uncaught_TypeError
            | Some cfgs \<Rightarrow> apply_overrides P swcOptions [] cfgs swcOptions)
      else Returned swcOptions)"

text \<open>The history when the loop has ended: every directive has been applied.\<close>

fun strings :: "jsval list \<Rightarrow> string list" where
  "strings [] = []"
| "strings (Str cfg # cfgs) = cfg # strings cfgs"
| "strings (_ # cfgs) = strings cfgs"

definition final_history :: "platform \<Rightarrow> jsobj \<Rightarrow> history" where
  "final_history P opts =
     (initial_swcOptions opts,
      if truthy (get opts ''config'')
      then (case iterate (get opts ''config'') of
              None \<Rightarrow> []
            | Some cfgs \<Rightarrow> map (directive P) (strings cfgs))
      else [])"

text \<open>\<^verbatim>\<open>a || b\<close>.\<close>

definition or_else :: "jsval \<Rightarrow> jsval \<Rightarrow> jsval" where
  "or_else a b = (if truthy a then a else b)"

text \<open>
  The options that lines 396 to 414 read, and what these reads see: the own
  properties of \<^verbatim>\<open>opts\<close>, and for a name it does not own what \<^verbatim>\<open>Object.prototype\<close>
  holds under that name after the directives.
\<close>

definition cli_option_names :: "string list" where
  "cli_option_names =
     [''outDir'', ''outFile'', ''stripLeadingPaths'', ''filename'', ''sync'',
      ''sourceMapTarget'', ''extensions'', ''watch'', ''copyFiles'', ''outFileExtension'',
      ''includeDotfiles'', ''deleteDirOnStart'', ''quiet'', ''only'', ''ignore'']"

definition visible_opts :: "platform \<Rightarrow> history \<Rightarrow> jsobj \<Rightarrow> jsobj" where
  "visible_opts P h opts =
     opts @
     map (\<lambda>name. (name, inherited_option P h name))
       (filter (\<lambda>name. map_of opts name = None \<and> inherited_option P h name \<noteq> Undefined)
          cli_option_names)"

text \<open>Lines 396 to 414.\<close>

definition make_cliOptions :: "jsobj \<Rightarrow> string list \<Rightarrow> jsnum option \<Rightarrow> CliOptions" where
  "make_cliOptions opts files w =
     \<lparr> outDir = get opts ''outDir'',
       outFile = get opts ''outFile'',
       stripLeadingPaths = truthy (get opts ''stripLeadingPaths''),
       filename = get opts ''filename'',
       filenames = files,
       sync = truthy (get opts ''sync''),
       workers = w,
       sourceMapTarget = get opts ''sourceMapTarget'',
       extensions = or_else (get opts ''extensions'') (array_of (map Str DEFAULT_EXTENSIONS)),
       watch = truthy (get opts ''watch''),
       copyFiles = truthy (get opts ''copyFiles''),
       outFileExtension = get opts ''outFileExtension'',
       includeDotfiles = truthy (get opts ''includeDotfiles''),
       deleteDirOnStart = truthy (get opts ''deleteDirOnStart''),
       quiet = truthy (get opts ''quiet''),
       only = or_else (get opts ''only'') (array_of []),
       ignore = or_else (get opts ''ignore'') (array_of []) \<rparr>"

text \<open>
  \<^verbatim>\<open>parserArgs(args)\<close>, from the state of the program after \<^verbatim>\<open>program.parse(args)\<close>.
  A message list handed to \<^verbatim>\<open>verifyArgsErrors\<close> either ends the process or lets the
  caller go on.
\<close>

definition parserArgs :: "platform \<Rightarrow> Command \<Rightarrow> (jsobj \<times> CliOptions) option outcome" where
  "parserArgs P program =
     (case load_opts P program of
        Inl msg \<Rightarrow>
          (case verifyArgsErrors [msg] of
             Some (code, lines) \<Rightarrow> Exited code lines
           | None \<Rightarrow> Returned None)
      | Inr opts \<Rightarrow>
          (let files = program_args program
           in (case parse_workers P opts of
                 None \<Rightarrow> Uncaught_TypeError
               | Some (w, workers_errors) \<Rightarrow>
                   (case verifyArgsErrors (option_errors opts files @ workers_errors) of
                      Some (code, lines) \<Rightarrow> Exited code lines
                    | None \<Rightarrow>
                        (case override_swcOptions P opts (initial_swcOptions opts) of
                           Returned swcOptions \<Rightarrow>
                             Returned (Some (swcOptions,
                               make_cliOptions (visible_opts P (final_history P opts) opts)
                                 files w))
                         | Exited code lines \<Rightarrow> Exited code lines
                         | Uncaught_TypeError \<Rightarrow> Uncaught_TypeError
                         | Uncaught_RangeError \<Rightarrow> Uncaught_RangeError)))))"




subsection \<open>The option schema and the inputs of the examples\<close>

text \<open>
  \<^verbatim>\<open>initProgram\<close> gives three options a value before any argument is read:
  \<^verbatim>\<open>--no-swcrc\<close> (line 50) makes \<^verbatim>\<open>swcrc\<close> default to \<^verbatim>\<open>true\<close>, and
  \<^verbatim>\<open>--strip-leading-paths\<close> (line 117) and \<^verbatim>\<open>--log-watch-compilation\<close> (line 145)
  are declared with the defaults \<^verbatim>\<open>false\<close> and \<^verbatim>\<open>true\<close>.
\<close>

definition schema_defaults :: jsobj where
  "schema_defaults =
     [(''swcrc'', Bool True), (''stripLeadingPaths'', Bool False),
      (''logWatchCompilation'', Bool True)]"

text \<open>
  The state of the program after parsing a command line that sets the options
  \<open>flags\<close> and has the positional arguments \<open>files\<close>: \<^verbatim>\<open>commander\<close> records the
  source \<^verbatim>\<open>"cli"\<close> for an option read from the arguments and \<^verbatim>\<open>"default"\<close> for one
  left at its default.
\<close>

definition command_line :: "jsobj \<Rightarrow> string list \<Rightarrow> Command" where
  "command_line flags files =
     \<lparr> program_opts = assign schema_defaults flags,
       program_getOptionValueSource =
         (\<lambda>key. if key \<in> fst ` set flags then Some ''cli''
                else if key \<in> fst ` set schema_defaults then Some ''default''
                else None),
       program_args = files \<rparr>"

text \<open>
  The members every object inherits from \<^verbatim>\<open>Object.prototype\<close>.
\<close>

definition Object_prototype_members :: "string list" where
  "Object_prototype_members =
     [''constructor'', ''__proto__'', ''hasOwnProperty'', ''isPrototypeOf'',
      ''propertyIsEnumerable'', ''toLocaleString'', ''toString'', ''valueOf'',
      ''__defineGetter__'', ''__defineSetter__'', ''__lookupGetter__'', ''__lookupSetter__'']"

text \<open>
  The platform of the examples: it holds two files, whose texts \<^verbatim>\<open>JSON.parse\<close> reads
  as an object of three entries and as an object of one entry, and \<^verbatim>\<open>JSON.parse\<close>
  rejects the words \<^verbatim>\<open>amd\<close> and \<^verbatim>\<open>hello\<close>. The examples parse no other text,
  convert no fractional number, array or object to a string or to a number, and read
  no inherited property of an array or of a primitive. No directive of the examples
  replaces a prototype, and the one that goes on in an inherited object,
  \<^verbatim>\<open>toString.x\<close>, ends there with its assignment and changes nothing that is read
  afterwards; so every object inherits what \<^verbatim>\<open>Object.prototype\<close> holds when the call
  starts, the methods are intact and the options inherit nothing.
\<close>

definition cli_json :: string where
  "cli_json =
     ''{ \"out-dir\": \"dist\", \"strip-leading-paths\": true, \"source-maps\": \"inline\" }''"

definition workers_json :: string where
  "workers_json = ''{ \"workers\": 4 }''"

definition example_platform :: platform where
  "example_platform =
     \<lparr> readFileSync =
         (\<lambda>path. if path = ''cli.json'' then Some cli_json
                 else if path = ''workers.json'' then Some workers_json
                 else None),
       JSON_parse =
         (\<lambda>text. if text = cli_json
                 then Some (Obj [(''out-dir'', Str ''dist''),
                                 (''strip-leading-paths'', Bool True),
                                 (''source-maps'', Str ''inline'')])
                 else if text = workers_json
                 then Some (Obj [(''workers'', Num (Fin 4))])
                 else None),
       ToString_other = (\<lambda>v. Inr ''[object Object]''),
       entries_of_null = ''Cannot convert undefined or null to object'',
       ToNumber_other = (\<lambda>v. Inr NaN),
       inherited = (\<lambda>h path v key. key \<in> set Object_prototype_members),
       beyond = (\<lambda>h path v key rest w. Ends),
       methods_intact = (\<lambda>h name. True),
       inherited_option = (\<lambda>h name. Undefined) \<rparr>"

definition merge_example :: Command where
  "merge_example =
     command_line [(''cliConfigFile'', Str ''cli.json''), (''outDir'', Str ''lib'')] [''src'']"



definition bare_filename_example :: Command where
  "bare_filename_example = command_line [(''filename'', Bool True)] []"



text \<open>\<^verbatim>\<open>--filename a.js --workers raw\<close>.\<close>

definition workers_example :: "string \<Rightarrow> Command" where
  "workers_example raw =
     command_line [(''filename'', Str ''a.js''), (''workers'', Str raw)] []"






text \<open>A file that sets \<^verbatim>\<open>source-maps\<close>, read with no flag but \<^verbatim>\<open>--cli-config-file\<close>.\<close>

definition source_maps_example :: Command where
  "source_maps_example = command_line [(''cliConfigFile'', Str ''cli.json'')] [''src'']"

section \<open>Properties\<close>

subsection \<open>Objects\<close>

lemma map_of_set_prop: "map_of (set_prop obj k v) = (map_of obj)(k \<mapsto> v)"
  by (simp add: set_prop_def update_conv')

lemma get_set_prop: "get (set_prop obj k v) k' = (if k' = k then v else get obj k')"
  by (simp add: get_def map_of_set_prop)

lemma keys_set_prop: "fst ` set (set_prop obj k v) = insert k (fst ` set obj)"
  by (simp add: set_prop_def dom_update)

lemma distinct_set_prop: "distinct (map fst obj) \<Longrightarrow> distinct (map fst (set_prop obj k v))"
  by (simp add: set_prop_def distinct_update)

lemma assign_Cons: "assign target ((k, v) # es) = assign (set_prop target k v) es"
  by (simp add: assign_def)

lemma map_of_assign: "map_of (assign target es) = map_of target ++ map_of (rev es)"
proof (induction es arbitrary: target)
  case Nil
  show ?case by (simp add: assign_def)
next
  case (Cons e es)
  obtain k v where e: "e = (k, v)" by (cases e)
  show ?case
    using Cons.IH [of "set_prop target k v"]
    by (auto simp: e assign_Cons map_of_set_prop map_add_def fun_eq_iff split: option.splits)
qed

lemma keys_assign: "fst ` set (assign target es) = fst ` set target \<union> fst ` set es"
proof (induction es arbitrary: target)
  case Nil
  show ?case by (simp add: assign_def)
next
  case (Cons e es)
  obtain k v where e: "e = (k, v)" by (cases e)
  show ?case
    using Cons.IH [of "set_prop target k v"] by (simp add: e assign_Cons keys_set_prop)
qed

lemma distinct_assign:
  "distinct (map fst target) \<Longrightarrow> distinct (map fst (assign target es))"
proof (induction es arbitrary: target)
  case Nil
  then show ?case by (simp add: assign_def)
next
  case (Cons e es)
  obtain k v where e: "e = (k, v)" by (cases e)
  show ?case
    using Cons.IH [of "set_prop target k v"] Cons.prems
    by (simp add: e assign_Cons distinct_set_prop)
qed

lemma distinct_fromEntries: "distinct (map fst (fromEntries es))"
  by (simp add: fromEntries_def distinct_assign)

lemma keys_fromEntries: "fst ` set (fromEntries es) = fst ` set es"
  by (simp add: fromEntries_def keys_assign)

lemma map_of_rev_distinct: "distinct (map fst es) \<Longrightarrow> map_of (rev es) = map_of es"
  by (rule map_of_inject_set [THEN iffD2]) (simp_all add: rev_map [symmetric])

lemma get_absent: "k \<notin> fst ` set obj \<Longrightarrow> get obj k = Undefined"
  by (simp add: get_def map_of_eq_None_iff [THEN iffD2])

lemma get_assign:
  "distinct (map fst es) \<Longrightarrow>
   get (assign target es) k = (if k \<in> fst ` set es then get es k else get target k)"
proof (cases "map_of es k")
  case None
  assume "distinct (map fst es)"
  then show ?thesis
    using None by (simp add: get_def map_of_assign map_of_rev_distinct map_add_def
        map_of_eq_None_iff [THEN iffD1])
next
  case (Some v)
  assume "distinct (map fst es)"
  moreover have "k \<in> fst ` set es"
    using Some by (metis map_of_eq_None_iff option.distinct(1))
  ultimately show ?thesis
    using Some by (simp add: get_def map_of_assign map_of_rev_distinct map_add_def)
qed

lemma get_fromEntries: "distinct (map fst es) \<Longrightarrow> get (fromEntries es) k = get es k"
  by (simp add: fromEntries_def get_assign get_absent)

lemma get_filter_key:
  "get (filter (\<lambda>pair. Q (fst pair)) obj) k = (if Q k then get obj k else Undefined)"
  by (induction obj) (auto simp: get_def)

subsection \<open>The merge with the CLI configuration file\<close>

lemma keys_filter_key:
  "fst ` set (filter (\<lambda>pair. Q (fst pair)) obj) = {k \<in> fst ` set obj. Q k}"
  by (induction obj) auto

lemma get_merge:
  assumes "distinct (map fst opts)"
  shows "get (merge program opts (camelCaseEntries es)) k =
     (if k \<in> fst ` set opts \<and> program_getOptionValueSource program k \<noteq> Some ''default''
      then get opts k
      else if k \<in> camelCaseKey ` fst ` set es then get (camelCaseEntries es) k
      else get opts k)"
proof -
  let ?src = "program_getOptionValueSource program"
  have dp: "distinct (map fst (provided program opts))"
    and dd: "distinct (map fst (defaults program opts))"
    using assms by (simp_all add: provided_def defaults_def distinct_map_filter)
  have kp: "fst ` set (provided program opts) = {k \<in> fst ` set opts. ?src k \<noteq> Some ''default''}"
    unfolding provided_def by (rule keys_filter_key)
  have gp: "get (provided program opts) k = (if ?src k \<noteq> Some ''default'' then get opts k else Undefined)"
    unfolding provided_def by (rule get_filter_key)
  have gd: "get (defaults program opts) k = (if ?src k = Some ''default'' then get opts k else Undefined)"
    unfolding defaults_def by (rule get_filter_key)
  have kc: "fst ` set (camelCaseEntries es) = camelCaseKey ` fst ` set es"
    by (force simp: camelCaseEntries_def keys_fromEntries image_iff)
  have dc: "distinct (map fst (camelCaseEntries es))"
    by (simp add: camelCaseEntries_def distinct_fromEntries)
  have "get (merge program opts (camelCaseEntries es)) k =
      (if k \<in> fst ` set (provided program opts) then get (provided program opts) k
       else if k \<in> fst ` set (camelCaseEntries es) then get (camelCaseEntries es) k
       else get (defaults program opts) k)"
    by (simp add: merge_def get_assign distinct_fromEntries keys_fromEntries get_fromEntries
        dp dd dc get_absent)
  then show ?thesis
    by (simp add: kp gp gd kc get_absent)
qed

text \<open>
  Claim C1. When \<open>loadCLIConfigFile\<close> returns, it has read the file, parsed it and taken
  its entries \<open>es\<close>, and every key \<open>k\<close> of the merged options resolves by precedence:
  to the value on the command line when \<open>k\<close> is an option whose source is not
  \<^verbatim>\<open>"default"\<close>; otherwise to the value of the configuration file when \<open>k\<close> is a key of
  the file after the conversion of its keys; otherwise to the value the options hold
  for \<open>k\<close>, which then is the schema default (or \<^verbatim>\<open>undefined\<close> when there is none). So a
  default never beats a value of the file, and an explicit flag beats both. The options
  are those of an object: no key occurs twice.
\<close>

theorem three_way_merge:
  assumes "loadCLIConfigFile P program opts path = Inr merged"
    and "distinct (map fst opts)"
  shows "\<exists>contents configOpts es.
      read_contents P path = Inr contents \<and> JSON_parse P contents = Some configOpts \<and>
      entries P configOpts = Inr es \<and>
      (\<forall>k. get merged k =
         (if k \<in> fst ` set opts \<and> program_getOptionValueSource program k \<noteq> Some ''default''
          then get opts k
          else if k \<in> camelCaseKey ` fst ` set es then get (camelCaseEntries es) k
          else get opts k))"
proof -
  from assms(1) obtain contents where c: "read_contents P path = Inr contents"
    by (cases "read_contents P path") (simp_all add: loadCLIConfigFile_def)
  from assms(1) c obtain configOpts where j: "JSON_parse P contents = Some configOpts"
    by (cases "JSON_parse P contents")
       (simp_all add: loadCLIConfigFile_def split: sum.splits)
  from assms(1) c j obtain es where e: "entries P configOpts = Inr es"
    by (cases "entries P configOpts") (simp_all add: loadCLIConfigFile_def)
  from assms(1) c j e have m: "merged = merge program opts (camelCaseEntries es)"
    by (simp add: loadCLIConfigFile_def)
  show ?thesis
    using c j e get_merge [OF assms(2)] unfolding m by blast
qed

text \<open>
  The flag \<^verbatim>\<open>--out-dir lib\<close> with a file that sets \<^verbatim>\<open>out-dir\<close> to \<^verbatim>\<open>dist\<close>,
  \<^verbatim>\<open>strip-leading-paths\<close> to \<^verbatim>\<open>true\<close> and \<^verbatim>\<open>source-maps\<close> to \<^verbatim>\<open>inline\<close>: the flag
  wins over the file, and the file wins over the default \<^verbatim>\<open>false\<close>.
\<close>

theorem three_way_merge_witness:
  "loadCLIConfigFile example_platform merge_example (program_opts merge_example)
       (Str ''cli.json'') =
     Inr [(''swcrc'', Bool True), (''stripLeadingPaths'', Bool True),
          (''logWatchCompilation'', Bool True), (''outDir'', Str ''lib''),
          (''sourceMaps'', Str ''inline''), (''cliConfigFile'', Str ''cli.json'')]
   \<and> distinct (map fst (program_opts merge_example))
   \<and> get (program_opts merge_example) ''outDir'' = Str ''lib''
   \<and> get (program_opts merge_example) ''stripLeadingPaths'' = Bool False"
proof -
  have load: "loadCLIConfigFile example_platform merge_example (program_opts merge_example)
       (Str ''cli.json'') =
     Inr [(''swcrc'', Bool True), (''stripLeadingPaths'', Bool True),
          (''logWatchCompilation'', Bool True), (''outDir'', Str ''lib''),
          (''sourceMaps'', Str ''inline''), (''cliConfigFile'', Str ''cli.json'')]"
    by code_simp
  have d: "distinct (map fst (program_opts merge_example))"
    by code_simp
  have "get (program_opts merge_example) ''outDir'' = Str ''lib''"
    and "get (program_opts merge_example) ''stripLeadingPaths'' = Bool False"
    by code_simp+
  then show ?thesis
    using three_way_merge [OF load d] load d by simp
qed

subsection \<open>The overrides\<close>

lemma split_not_Nil: "split sep s \<noteq> []"
  by (induction s) (auto split: list.splits)





lemma goes_beyond_Returned:
  "goes_beyond P h path options keyPart rest v = Returned r \<Longrightarrow> r = options"
  by (auto simp: goes_beyond_def split: ending.splits)

lemma walk_step:
  assumes "walk P h path (keyPart # k' # rest) v options = Returned r"
  shows "\<exists>options'. (r = options' \<or> (\<exists>child'. r = replace_prop options' keyPart child')) \<and>
           (options' = options \<or>
            write_prop P h path options keyPart (Obj []) = Returned options')"
proof (cases "read_prop P h path options keyPart")
  case (Found found)
  show ?thesis
  proof (cases "found = Undefined")
    case True
    with assms Found show ?thesis
      by (simp split: outcome.splits lookup.splits del: write_prop.simps)
         (blast dest: goes_beyond_Returned)+
  next
    case False
    with assms Found show ?thesis
      by (simp split: outcome.splits lookup.splits del: write_prop.simps)
         (blast dest: goes_beyond_Returned)+
  qed
next
  case Inherited
  with assms show ?thesis
    by (auto dest: goes_beyond_Returned)
next
  case Throws
  with assms show ?thesis by simp
qed












lemma strings_append: "strings (cfgs @ cfgs') = strings cfgs @ strings cfgs'"
  by (induction cfgs rule: strings.induct) simp_all



text \<open>
  An override whose path leads through an array writes into the array: the element
  after the last one is created and walked into.
\<close>

lemma override_into_an_array:
  "assign_path example_platform ([], []) [] [''plugins'', ''1'', ''name''] (Str ''x'')
     [(''plugins'', array_of [Str ''a''])] =
   Returned [(''plugins'', Arr [Some (Str ''a''), Some (Obj [(''name'', Str ''x'')])] [])]"
  by code_simp




subsection \<open>Validation\<close>

lemma write_prop_not_Exited: "write_prop P h path options k v \<noteq> Exited code lines"
proof (cases options)
  case (Arr elems named)
  then show ?thesis
    by (auto simp: set_length_def split: option.splits sum.splits jsnum.splits)
qed simp_all

lemma goes_beyond_not_Exited:
  "goes_beyond P h path options keyPart rest v \<noteq> Exited code lines"
  by (simp add: goes_beyond_def split: ending.splits)

lemma walk_not_Exited: "walk P h path keyParts v options \<noteq> Exited code lines"
  by (induction P h path keyParts v options rule: walk.induct)
     (auto simp: write_prop_not_Exited goes_beyond_not_Exited
        split: lookup.splits outcome.splits)

lemma assign_path_not_Exited: "assign_path P h path keyParts v options \<noteq> Exited code lines"
  using walk_not_Exited [of P h path keyParts v "Obj options" code lines]
  by (auto simp: assign_path_def split: outcome.splits)

lemma apply_overrides_not_Exited:
  "apply_overrides P start applied cfgs swcOptions \<noteq> Exited code lines"
  by (induction P start applied cfgs swcOptions rule: apply_overrides.induct)
     (auto simp: assign_path_not_Exited split: prod.splits outcome.splits)

lemma override_swcOptions_not_Exited: "override_swcOptions P opts swcOptions \<noteq> Exited code lines"
  by (simp add: override_swcOptions_def apply_overrides_not_Exited split: option.splits)

lemma parserArgs_errors:
  assumes "load_opts P program = Inr opts" and "parse_workers P opts = Some (w, workers_errors)"
    and "option_errors opts (program_args program) @ workers_errors \<noteq> []"
  shows "parserArgs P program =
     Exited 2 (''swc:'' # map (\<lambda>error. ''  '' @ error)
                 (option_errors opts (program_args program) @ workers_errors))"
  using assms by (simp add: parserArgs_def verifyArgsErrors_def Let_def)

lemma parserArgs_no_errors:
  assumes "load_opts P program = Inr opts" and "parse_workers P opts = Some (w, workers_errors)"
    and "option_errors opts (program_args program) @ workers_errors = []"
  shows "parserArgs P program =
     (case override_swcOptions P opts (initial_swcOptions opts) of
        Returned swcOptions \<Rightarrow>
          Returned (Some (swcOptions,
            make_cliOptions (visible_opts P (final_history P opts) opts) (program_args program) w))
      | Exited code lines \<Rightarrow> Exited code lines
      | Uncaught_TypeError \<Rightarrow> Uncaught_TypeError
      | Uncaught_RangeError \<Rightarrow> Uncaught_RangeError)"
  using assms by (simp add: parserArgs_def verifyArgsErrors_def Let_def)

lemma parserArgs_Exited:
  assumes "load_opts P program = Inr opts" and "parse_workers P opts = Some (w, workers_errors)"
    and "parserArgs P program = Exited code lines"
  shows "code = 2 \<and>
     lines = ''swc:'' # map (\<lambda>error. ''  '' @ error)
                 (option_errors opts (program_args program) @ workers_errors)"
proof (cases "option_errors opts (program_args program) @ workers_errors = []")
  case True
  then show ?thesis
    using assms parserArgs_no_errors [OF assms(1,2) True]
    by (auto simp: override_swcOptions_not_Exited split: outcome.splits)
next
  case False
  then show ?thesis
    using assms parserArgs_errors [OF assms(1,2) False] by simp
qed

lemma indented_mem: "''  '' @ m \<in> set (map (\<lambda>error. ''  '' @ error) errors) \<longleftrightarrow> m \<in> set errors"
  by auto

lemma stdin_in_option_errors:
  "stdin_message \<in> set (option_errors opts files) \<longleftrightarrow>
     \<not> truthy (get opts ''outDir'') \<and> files = [] \<and> \<not> is_string (get opts ''filename'') \<and>
     get opts ''swcrc'' \<noteq> Bool False"
  by (simp add: option_errors_def stdin_message_def)











text \<open>
  Claim C10. A bare \<^verbatim>\<open>--filename\<close> leaves the value \<^verbatim>\<open>true\<close>, which is not a string:
  with no output directory, no positional argument and \<^verbatim>\<open>swcrc\<close> not \<^verbatim>\<open>false\<close>,
  \<open>parserArgs\<close> still leaves the process with status 2 and the message on standard
  input in its report.
\<close>

theorem bare_filename_is_no_filename:
  assumes "load_opts P program = Inr opts"
    and "parse_workers P opts = Some (w, workers_errors)"
    and "get opts ''filename'' = Bool True"
    and "\<not> truthy (get opts ''outDir'')"
    and "program_args program = []"
    and "get opts ''swcrc'' \<noteq> Bool False"
  shows "\<exists>messages.
      parserArgs P program = Exited 2 (''swc:'' # map (\<lambda>error. ''  '' @ error) messages)
      \<and> stdin_message \<in> set messages"
proof -
  let ?messages = "option_errors opts (program_args program) @ workers_errors"
  have m: "stdin_message \<in> set ?messages"
    using assms(3-6) by (simp add: stdin_in_option_errors)
  then have "?messages \<noteq> []" by auto
  then have "parserArgs P program =
      Exited 2 (''swc:'' # map (\<lambda>error. ''  '' @ error) ?messages)"
    by (rule parserArgs_errors [OF assms(1,2)])
  with m show ?thesis by blast
qed

theorem bare_filename_is_no_filename_witness:
  "load_opts example_platform bare_filename_example = Inr (program_opts bare_filename_example)
   \<and> parse_workers example_platform (program_opts bare_filename_example) = Some (None, [])
   \<and> get (program_opts bare_filename_example) ''filename'' = Bool True
   \<and> \<not> truthy (get (program_opts bare_filename_example) ''outDir'')
   \<and> program_args bare_filename_example = []
   \<and> get (program_opts bare_filename_example) ''swcrc'' \<noteq> Bool False
   \<and> parserArgs example_platform bare_filename_example =
        Exited 2 [''swc:'', ''  '' @ stdin_message]"
proof -
  have l: "load_opts example_platform bare_filename_example =
      Inr (program_opts bare_filename_example)"
    by code_simp
  have p: "parse_workers example_platform (program_opts bare_filename_example) = Some (None, [])"
    by code_simp
  have v: "get (program_opts bare_filename_example) ''filename'' = Bool True"
    "\<not> truthy (get (program_opts bare_filename_example) ''outDir'')"
    "program_args bare_filename_example = []"
    "get (program_opts bare_filename_example) ''swcrc'' \<noteq> Bool False"
    by code_simp+
  have r: "parserArgs example_platform bare_filename_example =
        Exited 2 [''swc:'', ''  '' @ stdin_message]"
    by code_simp
  show ?thesis
    using bare_filename_is_no_filename [OF l p v] l p v r by simp
qed

subsection \<open>The worker count\<close>

lemma bitlen_1: "bitlen 1 = 1"
  by (simp add: bitlen_alt_def)

lemma to_double_exact:
  assumes "0 \<le> n" and "n < 2 ^ 53"
  shows "to_double False n 0 = Fin (of_int n)"
proof (cases "n = 0")
  case True
  then show ?thesis by (simp add: to_double_def)
next
  case False
  with assms have pos: "0 < n" by simp
  from bitlen_bounds [OF pos] have lo: "2 ^ nat (bitlen n - 1) \<le> n" and hi: "n < 2 ^ nat (bitlen n)"
    by simp_all
  have ge1: "1 \<le> bitlen n"
    using pos bitlen_eq_zero_iff [of n] bitlen_nonneg [of n] by linarith
  have le53: "bitlen n \<le> 53"
    using assms(2) by (simp add: bitlen_le_iff_power)
  define s where "s = bitlen n - 1 - 52"
  have s0: "s \<le> 0" using le53 by (simp add: s_def)
  have s1: "- 1022 \<le> bitlen n - 1" using ge1 by simp
  show ?thesis
  proof (cases "s = 0")
    case True
    then have "bitlen n - 1 = 52" by (simp add: s_def)
    then show ?thesis
      using pos lo ge1 by (simp add: to_double_def bitlen_1 Let_def)
  next
    case False
    with s0 have neg: "s < 0" by simp
    have "max (bitlen n - 1) (- 1022) - 52 = s"
      using s1 by (simp add: s_def max_def)
    then show ?thesis
      using pos lo ge1 neg
      by (simp add: to_double_def bitlen_1 Let_def)
  qed
qed

lemma digits_value_acc_nonneg:
  "0 \<le> a \<Longrightarrow> \<forall>c\<in>set ds. isDigit c \<Longrightarrow>
   0 \<le> foldl (\<lambda>a c. 10 * a + ((of_char c :: int) - 48)) a ds"
proof (induction ds arbitrary: a)
  case Nil
  then show ?case by simp
next
  case (Cons d ds)
  from Cons.prems have "48 \<le> (of_char d :: nat)"
    by (simp add: isDigit_def)
  then have "(48 :: int) \<le> int (of_char d)" by linarith
  moreover have "(of_char d :: int) = int (of_char d)" by (simp only: of_nat_of_char)
  ultimately have "(48 :: int) \<le> of_char d" by simp
  with Cons.prems have "0 \<le> 10 * a + ((of_char d :: int) - 48)" by simp
  then show ?case
    using Cons.IH Cons.prems by simp
qed

lemma digits_value_nonneg: "\<forall>c\<in>set ds. isDigit c \<Longrightarrow> 0 \<le> digits_value ds"
  unfolding digits_value_def by (rule digits_value_acc_nonneg) simp_all

lemma digit_not_special:
  "isDigit c \<Longrightarrow> \<not> isWhiteSpace c \<and> c \<noteq> CHR ''-'' \<and> c \<noteq> CHR ''+'' \<and> c \<noteq> CHR ''I''"
  by (auto simp: isDigit_def isWhiteSpace_def)

lemma parseFloat_digits_prefix:
  assumes "ds \<noteq> []" and "\<forall>c\<in>set ds. isDigit c"
    and "rest = [] \<or> (\<not> isDigit (hd rest) \<and> hd rest \<notin> {CHR ''.'', CHR ''e'', CHR ''E''})"
  shows "parseFloat (ds @ rest) = to_double False (digits_value ds) 0"
proof -
  from assms(1) obtain d ds' where ds: "ds = d # ds'" by (cases ds) auto
  with assms(2) have d: "isDigit d" by simp
  note n = digit_not_special [OF d]
  have trimmed: "dropWhile isWhiteSpace (ds @ rest) = ds @ rest"
    using n by (simp add: ds)
  have inf: "take 8 (ds @ rest) \<noteq> ''Infinity''"
    using n by (simp add: ds)
  have "takeWhile isDigit rest = []"
    using assms(3) by (cases rest) auto
  then have ip: "takeWhile isDigit (ds @ rest) = ds"
    using assms(2) by simp
  have "dropWhile isDigit rest = rest"
    using assms(3) by (cases rest) auto
  then have r1: "dropWhile isDigit (ds @ rest) = rest"
    using assms(2) by simp
  have fp: "(case rest of [] \<Rightarrow> [] | c # r \<Rightarrow> if c = CHR ''.'' then takeWhile isDigit r else []) = []"
    using assms(3) by (cases rest) auto
  have r2: "(case rest of [] \<Rightarrow> []
              | c # r \<Rightarrow> if c = CHR ''.'' then dropWhile isDigit r
                        else dropWhile isDigit (ds @ rest)) = rest"
    using assms(3) r1 by (cases rest) auto
  have ex: "exponent_part rest = 0"
    using assms(3) by (cases rest) (auto simp: exponent_part_def)
  have hd: "hd (ds @ rest) = d" by (simp add: ds)
  show ?thesis
    unfolding parseFloat_def Let_def trimmed
    using n assms(1) by (simp add: hd inf ip r1 fp r2 ex del: take_append)
qed

lemma parse_workers_Str:
  "get opts ''workers'' = Str s \<Longrightarrow>
   parse_workers P opts =
     Some (Some (parseFloat s),
           if \<not> isInteger (parseFloat s) \<or> less_zero (parseFloat s)
           then [workers_message s] else [])"
  by (simp add: parse_workers_def Let_def)

lemma workers_message_not_option_error: "workers_message s \<notin> set (option_errors opts files)"
  by (simp add: option_errors_def workers_message_def stdin_message_def)

lemma parserArgs_Returned:
  assumes "load_opts P program = Inr opts" and "parse_workers P opts = Some (w, workers_errors)"
    and "parserArgs P program = Returned result"
  shows "\<exists>swcOptions.
     result = Some (swcOptions,
       make_cliOptions (visible_opts P (final_history P opts) opts) (program_args program) w) \<and>
     override_swcOptions P opts (initial_swcOptions opts) = Returned swcOptions \<and>
     option_errors opts (program_args program) @ workers_errors = []"
proof (cases "option_errors opts (program_args program) @ workers_errors = []")
  case True
  then show ?thesis
    using assms(3) parserArgs_no_errors [OF assms(1,2) True]
    by (auto split: outcome.splits)
next
  case False
  then show ?thesis
    using assms(3) parserArgs_errors [OF assms(1,2) False] by simp
qed

lemma isInteger_iff: "isInteger n \<longleftrightarrow> (\<exists>r. n = Fin r \<and> r \<in> \<int>)"
  by (cases n) (auto simp: Ints_def elim: Ints_cases)

lemma less_zero_iff: "less_zero n \<longleftrightarrow> n = NegInf \<or> (\<exists>r. n = Fin r \<and> r < 0)"
  by (cases n) auto



text \<open>
  Claim C9. Let the options be loaded and \<^verbatim>\<open>opts.workers\<close> be the string \<open>raw\<close>.
  \<^item> The report of \<open>parserArgs\<close> holds the message on the worker count exactly when
    \<^verbatim>\<open>parseFloat(raw)\<close> is \<open>NaN\<close>, is not an integer (an infinity, or a finite value
    with a fractional part) or is negative.
  \<^item> If \<^verbatim>\<open>parseFloat(raw)\<close> is the natural number \<open>n\<close>, no report holds that message,
    and a result that is returned has \<open>n\<close> as \<^verbatim>\<open>cliOptions.workers\<close>.
  \<^item> \<^verbatim>\<open>parseFloat\<close> reads a prefix: if \<open>raw\<close> is a non-empty run of digits, of a
    value below \<open>2 ^ 53\<close>, followed by nothing or by a character that is neither a
    digit nor a dot nor an exponent mark, then \<^verbatim>\<open>parseFloat(raw)\<close> is the value of
    the digits. \<^verbatim>\<open>"4abc"\<close> parses to 4.
\<close>

theorem lenient_worker_parsing:
  assumes "load_opts P program = Inr opts" and "get opts ''workers'' = Str raw"
  shows "((\<exists>messages.
             parserArgs P program = Exited 2 (''swc:'' # map (\<lambda>error. ''  '' @ error) messages)
             \<and> workers_message raw \<in> set messages)
          \<longleftrightarrow> parseFloat raw = NaN \<or> parseFloat raw = PosInf \<or> parseFloat raw = NegInf \<or>
               (\<exists>r. parseFloat raw = Fin r \<and> (r \<notin> \<int> \<or> r < 0)))
     \<and> (parseFloat raw = Fin (of_nat n) \<longrightarrow>
          (\<forall>code lines. parserArgs P program = Exited code lines \<longrightarrow>
             ''  '' @ workers_message raw \<notin> set lines)
          \<and> (\<forall>swcOptions cliOptions.
                parserArgs P program = Returned (Some (swcOptions, cliOptions)) \<longrightarrow>
                workers cliOptions = Some (Fin (of_nat n))))
     \<and> (digits \<noteq> [] \<and> (\<forall>c\<in>set digits. isDigit c) \<and> digits_value digits < 2 ^ 53 \<and>
          (rest = [] \<or> \<not> isDigit (hd rest) \<and> hd rest \<notin> {CHR ''.'', CHR ''e'', CHR ''E''}) \<and>
          raw = digits @ rest \<longrightarrow>
          parseFloat raw = Fin (of_int (digits_value digits)) \<and> 0 \<le> digits_value digits)
     \<and> parseFloat ''4abc'' = Fin 4"
proof -
  let ?files = "program_args program"
  let ?bad = "\<not> isInteger (parseFloat raw) \<or> less_zero (parseFloat raw)"
  let ?errors = "if ?bad then [workers_message raw] else []"
  have p: "parse_workers P opts = Some (Some (parseFloat raw), ?errors)"
    using assms(2) by (rule parse_workers_Str)
  have bad: "?bad \<longleftrightarrow> parseFloat raw = NaN \<or> parseFloat raw = PosInf \<or> parseFloat raw = NegInf \<or>
               (\<exists>r. parseFloat raw = Fin r \<and> (r \<notin> \<int> \<or> r < 0))"
    by (cases "parseFloat raw") (auto simp: isInteger_iff)
  have none: "\<not> ?bad \<Longrightarrow> parserArgs P program = Exited code lines \<Longrightarrow>
      ''  '' @ workers_message raw \<notin> set lines" for code lines
  proof -
    assume "\<not> ?bad" and e: "parserArgs P program = Exited code lines"
    with p have "parse_workers P opts = Some (Some (parseFloat raw), [])" by simp
    from parserArgs_Exited [OF assms(1) this e]
    have lines: "lines = ''swc:'' # map (\<lambda>error. ''  '' @ error) (option_errors opts ?files)"
      by simp
    have "''  '' @ workers_message raw \<notin>
        set (map (\<lambda>error. ''  '' @ error) (option_errors opts ?files))"
      by (simp only: indented_mem workers_message_not_option_error) simp
    then show ?thesis by (simp add: lines)
  qed
  have reported: "(\<exists>messages.
             parserArgs P program = Exited 2 (''swc:'' # map (\<lambda>error. ''  '' @ error) messages)
             \<and> workers_message raw \<in> set messages) \<longleftrightarrow> ?bad"
  proof
    assume "\<exists>messages.
             parserArgs P program = Exited 2 (''swc:'' # map (\<lambda>error. ''  '' @ error) messages)
             \<and> workers_message raw \<in> set messages"
    then obtain messages
      where e: "parserArgs P program = Exited 2 (''swc:'' # map (\<lambda>error. ''  '' @ error) messages)"
        and m: "workers_message raw \<in> set messages"
      by blast
    from m have "''  '' @ workers_message raw \<in> set (map (\<lambda>error. ''  '' @ error) messages)"
      by (simp only: indented_mem)
    then have "''  '' @ workers_message raw \<in>
        set (''swc:'' # map (\<lambda>error. ''  '' @ error) messages)"
      by simp
    with none [OF _ e] show ?bad by blast
  next
    assume b: ?bad
    with p have "parse_workers P opts = Some (Some (parseFloat raw), [workers_message raw])"
      by simp
    moreover have "option_errors opts ?files @ [workers_message raw] \<noteq> []" by simp
    ultimately have "parserArgs P program =
        Exited 2 (''swc:'' # map (\<lambda>error. ''  '' @ error)
                    (option_errors opts ?files @ [workers_message raw]))"
      by (rule parserArgs_errors [OF assms(1)])
    moreover have "workers_message raw \<in> set (option_errors opts ?files @ [workers_message raw])"
      by simp
    ultimately show "\<exists>messages.
             parserArgs P program = Exited 2 (''swc:'' # map (\<lambda>error. ''  '' @ error) messages)
             \<and> workers_message raw \<in> set messages"
      by blast
  qed
  have accepted: "parseFloat raw = Fin (of_nat n) \<longrightarrow>
          (\<forall>code lines. parserArgs P program = Exited code lines \<longrightarrow>
             ''  '' @ workers_message raw \<notin> set lines)
          \<and> (\<forall>swcOptions cliOptions.
                parserArgs P program = Returned (Some (swcOptions, cliOptions)) \<longrightarrow>
                workers cliOptions = Some (Fin (of_nat n)))"
  proof (intro impI conjI allI)
    fix code lines
    assume f: "parseFloat raw = Fin (of_nat n)"
      and e: "parserArgs P program = Exited code lines"
    from f have "\<not> ?bad" by simp
    from none [OF this e] show "''  '' @ workers_message raw \<notin> set lines" .
  next
    fix swcOptions cliOptions
    assume f: "parseFloat raw = Fin (of_nat n)"
      and e: "parserArgs P program = Returned (Some (swcOptions, cliOptions))"
    from parserArgs_Returned [OF assms(1) p e]
    show "workers cliOptions = Some (Fin (of_nat n))"
      by (auto simp: make_cliOptions_def f)
  qed
  have prefix: "digits \<noteq> [] \<and> (\<forall>c\<in>set digits. isDigit c) \<and> digits_value digits < 2 ^ 53 \<and>
          (rest = [] \<or> \<not> isDigit (hd rest) \<and> hd rest \<notin> {CHR ''.'', CHR ''e'', CHR ''E''}) \<and>
          raw = digits @ rest \<longrightarrow>
          parseFloat raw = Fin (of_int (digits_value digits)) \<and> 0 \<le> digits_value digits"
  proof (intro impI)
    assume a: "digits \<noteq> [] \<and> (\<forall>c\<in>set digits. isDigit c) \<and> digits_value digits < 2 ^ 53 \<and>
          (rest = [] \<or> \<not> isDigit (hd rest) \<and> hd rest \<notin> {CHR ''.'', CHR ''e'', CHR ''E''}) \<and>
          raw = digits @ rest"
    then have nn: "0 \<le> digits_value digits"
      by (simp add: digits_value_nonneg)
    from a have "parseFloat raw = to_double False (digits_value digits) 0"
      by (simp add: parseFloat_digits_prefix)
    also from a nn have "\<dots> = Fin (of_int (digits_value digits))"
      by (simp add: to_double_exact)
    finally show "parseFloat raw = Fin (of_int (digits_value digits)) \<and> 0 \<le> digits_value digits"
      using nn by simp
  qed
  have example: "parseFloat ''4abc'' = Fin 4"
    by code_simp
  show ?thesis
    using reported bad accepted prefix example by blast
qed

text \<open>
  \<^verbatim>\<open>--filename a.js --workers 4abc\<close> returns the worker count 4, and
  \<^verbatim>\<open>--filename a.js --workers abc\<close>, which parses to \<open>NaN\<close>, is rejected.
\<close>

theorem lenient_worker_parsing_witness:
  "load_opts example_platform (workers_example ''4abc'') =
     Inr (program_opts (workers_example ''4abc''))
   \<and> get (program_opts (workers_example ''4abc'')) ''workers'' = Str ''4abc''
   \<and> parseFloat ''4abc'' = Fin (of_nat 4)
   \<and> ''4'' \<noteq> [] \<and> isDigit (CHR ''4'') \<and> digits_value ''4'' < 2 ^ 53
   \<and> \<not> isDigit (hd ''abc'') \<and> hd ''abc'' \<notin> {CHR ''.'', CHR ''e'', CHR ''E''}
   \<and> parserArgs example_platform (workers_example ''4abc'') =
        Returned (Some (initial_swcOptions (program_opts (workers_example ''4abc'')),
                        make_cliOptions (program_opts (workers_example ''4abc'')) []
                          (Some (Fin 4))))
   \<and> workers (make_cliOptions (program_opts (workers_example ''4abc'')) [] (Some (Fin 4))) =
        Some (Fin (of_nat 4))
   \<and> load_opts example_platform (workers_example ''abc'') =
        Inr (program_opts (workers_example ''abc''))
   \<and> get (program_opts (workers_example ''abc'')) ''workers'' = Str ''abc''
   \<and> parseFloat ''abc'' = NaN
   \<and> parserArgs example_platform (workers_example ''abc'') =
        Exited 2 [''swc:'', ''  '' @ workers_message ''abc'']"
proof -
  have l: "load_opts example_platform (workers_example ''4abc'') =
     Inr (program_opts (workers_example ''4abc''))"
    by code_simp
  have g: "get (program_opts (workers_example ''4abc'')) ''workers'' = Str ''4abc''"
    by code_simp
  have f: "parseFloat ''4abc'' = Fin (of_nat 4)"
    by code_simp
  have d: "''4'' \<noteq> []" "isDigit (CHR ''4'')" "digits_value ''4'' < 2 ^ 53"
    "\<not> isDigit (hd ''abc'')" "hd ''abc'' \<notin> {CHR ''.'', CHR ''e'', CHR ''E''}"
    by (simp_all add: isDigit_def digits_value_def)
  have r: "parserArgs example_platform (workers_example ''4abc'') =
        Returned (Some (initial_swcOptions (program_opts (workers_example ''4abc'')),
                        make_cliOptions (program_opts (workers_example ''4abc'')) []
                          (Some (Fin 4))))"
    by code_simp
  have l': "load_opts example_platform (workers_example ''abc'') =
        Inr (program_opts (workers_example ''abc''))"
    by code_simp
  have g': "get (program_opts (workers_example ''abc'')) ''workers'' = Str ''abc''"
    by code_simp
  have f': "parseFloat ''abc'' = NaN"
    by code_simp
  have r': "parserArgs example_platform (workers_example ''abc'') =
        Exited 2 [''swc:'', ''  '' @ workers_message ''abc'']"
    by code_simp
  note t = lenient_worker_parsing [OF l g, where n = 4]
  from t f r
  have w: "workers (make_cliOptions (program_opts (workers_example ''4abc'')) [] (Some (Fin 4))) =
        Some (Fin (of_nat 4))"
    by blast
  show ?thesis
    using l g f d r w l' g' f' r' by blast
qed

subsection \<open>The keys of the configuration file and the source maps\<close>





lemma get_initial_swcOptions_sourceMaps:
  "get (initial_swcOptions opts) ''sourceMaps'' = get opts ''sourceMaps''"
  by (simp add: initial_swcOptions_def Let_def get_set_prop) (simp add: get_def)

lemma keys_initial_swcOptions_sourceMaps:
  "''sourceMaps'' \<in> fst ` set (initial_swcOptions opts) \<longleftrightarrow> get opts ''sourceMaps'' \<noteq> Undefined"
  by (simp add: initial_swcOptions_def Let_def keys_set_prop)




lemma assign_path_frame:
  "assign_path P h [] keyParts v options = Returned options' \<Longrightarrow> keyParts \<noteq> [] \<Longrightarrow>
   hd keyParts \<noteq> k \<Longrightarrow> map_of options' k = map_of options k"
proof (cases keyParts)
  case Nil
  assume "keyParts \<noteq> []"
  with Nil show ?thesis by simp
next
  case (Cons keyPart rest)
  assume a: "assign_path P h [] keyParts v options = Returned options'" and h: "hd keyParts \<noteq> k"
  show ?thesis
  proof (cases rest)
    case Nil
    with a h Cons show ?thesis
      by (auto simp: assign_path_def map_of_set_prop split: if_splits outcome.splits)
  next
    case (Cons k' rest')
    with a \<open>keyParts = keyPart # rest\<close>
    obtain r where w: "walk P h [] (keyPart # k' # rest') v (Obj options) = Returned r"
      and o: "options' = properties r"
      by (auto simp: assign_path_def split: outcome.splits)
    from walk_step [OF w] obtain mid
      where r: "r = mid \<or> (\<exists>child'. r = replace_prop mid keyPart child')"
        and m: "mid = Obj options \<or>
                write_prop P h [] (Obj options) keyPart (Obj []) = Returned mid"
      by blast
    from m have "\<exists>props. mid = Obj props \<and> map_of props k = map_of options k"
      using h \<open>keyParts = keyPart # rest\<close>
      by (auto simp: map_of_set_prop split: if_splits)
    then obtain props where p: "mid = Obj props" "map_of props k = map_of options k"
      by blast
    from r p h \<open>keyParts = keyPart # rest\<close> show ?thesis
      by (auto simp: o map_of_set_prop)
  qed
qed

lemma apply_overrides_frame:
  "apply_overrides P start applied cfgs swcOptions = Returned swcOptions' \<Longrightarrow>
   \<forall>cfg. Str cfg \<in> set cfgs \<longrightarrow> hd (split (CHR ''.'') (fst (parse_directive P cfg))) \<noteq> k \<Longrightarrow>
   map_of swcOptions' k = map_of swcOptions k"
proof (induction P start applied cfgs swcOptions rule: apply_overrides.induct)
  case (1 P start applied swcOptions)
  then show ?case by simp
next
  case (2 P start applied cfg cfgs swcOptions)
  obtain key v where d: "parse_directive P cfg = (key, v)"
    by (cases "parse_directive P cfg")
  from "2.prems"(1) have c: "callable P (start, applied) cfg"
    by (auto split: if_splits)
  with d "2.prems"(1) obtain mid
    where m: "assign_path P (start, applied) [] (split (CHR ''.'') key) v swcOptions = Returned mid"
      and r: "apply_overrides P start (applied @ [directive P cfg]) cfgs mid = Returned swcOptions'"
    by (auto split: outcome.splits)
  from "2.prems"(2) d have "hd (split (CHR ''.'') key) \<noteq> k"
    by auto
  with m have "map_of mid k = map_of swcOptions k"
    by (intro assign_path_frame) (auto simp: split_not_Nil)
  moreover have "map_of swcOptions' k = map_of mid k"
    using "2.IH" [OF _ d [symmetric] refl m r] c "2.prems"(2) by simp
  ultimately show ?case by simp
qed simp_all

lemma parserArgs_Returned_workers:
  "load_opts P program = Inr opts \<Longrightarrow> parserArgs P program = Returned result \<Longrightarrow>
   \<exists>w workers_errors. parse_workers P opts = Some (w, workers_errors)"
  by (cases "parse_workers P opts") (auto simp: parserArgs_def)

text \<open>
  Claim C8. The compiler options assembled from the merged options have the field
  \<^verbatim>\<open>sourceMaps\<close> exactly when the merged options define \<^verbatim>\<open>sourceMaps\<close>, with the same
  value; when they do not, the object has its five other fields and nothing in the
  place of the source maps. The same holds for the compiler options that \<open>parserArgs\<close>
  returns, as long as no override has a key that starts with \<^verbatim>\<open>sourceMaps\<close>.
\<close>

theorem source_maps_absence_preserved:
  "(''sourceMaps'' \<in> fst ` set (initial_swcOptions opts) \<longleftrightarrow> get opts ''sourceMaps'' \<noteq> Undefined)
   \<and> get (initial_swcOptions opts) ''sourceMaps'' = get opts ''sourceMaps''
   \<and> (get opts ''sourceMaps'' = Undefined \<longrightarrow>
        initial_swcOptions opts =
          [(''jsc'', Obj [(''parser'', Undefined), (''transform'', Obj [])]),
           (''sourceFileName'', get opts ''sourceFileName''),
           (''sourceRoot'', get opts ''sourceRoot''),
           (''configFile'', get opts ''configFile''),
           (''swcrc'', get opts ''swcrc'')])
   \<and> (load_opts P program = Inr opts \<and>
        parserArgs P program = Returned (Some (swcOptions, cliOptions)) \<and>
        (\<forall>cfgs cfg. iterate (get opts ''config'') = Some cfgs \<and> Str cfg \<in> set cfgs \<longrightarrow>
           hd (split (CHR ''.'') (fst (parse_directive P cfg))) \<noteq> ''sourceMaps'') \<longrightarrow>
        (''sourceMaps'' \<in> fst ` set swcOptions \<longleftrightarrow> get opts ''sourceMaps'' \<noteq> Undefined)
        \<and> get swcOptions ''sourceMaps'' = get opts ''sourceMaps'')"
proof -
  have final: "(''sourceMaps'' \<in> fst ` set swcOptions \<longleftrightarrow> get opts ''sourceMaps'' \<noteq> Undefined)
        \<and> get swcOptions ''sourceMaps'' = get opts ''sourceMaps''"
    if l: "load_opts P program = Inr opts"
      and r: "parserArgs P program = Returned (Some (swcOptions, cliOptions))"
      and n: "\<forall>cfgs cfg. iterate (get opts ''config'') = Some cfgs \<and> Str cfg \<in> set cfgs \<longrightarrow>
           hd (split (CHR ''.'') (fst (parse_directive P cfg))) \<noteq> ''sourceMaps''"
  proof -
    from parserArgs_Returned_workers [OF l r] obtain w workers_errors
      where p: "parse_workers P opts = Some (w, workers_errors)" by blast
    from parserArgs_Returned [OF l p r]
    have o: "override_swcOptions P opts (initial_swcOptions opts) = Returned swcOptions"
      by auto
    have "map_of swcOptions ''sourceMaps'' = map_of (initial_swcOptions opts) ''sourceMaps''"
    proof (cases "truthy (get opts ''config'')")
      case False
      with o show ?thesis by (simp add: override_swcOptions_def)
    next
      case True
      with o obtain cfgs where i: "iterate (get opts ''config'') = Some cfgs"
        and a: "apply_overrides P (initial_swcOptions opts) [] cfgs (initial_swcOptions opts) =
            Returned swcOptions"
        by (auto simp: override_swcOptions_def split: option.splits)
      from n i have "\<forall>cfg. Str cfg \<in> set cfgs \<longrightarrow>
          hd (split (CHR ''.'') (fst (parse_directive P cfg))) \<noteq> ''sourceMaps''"
        by blast
      with a show ?thesis by (rule apply_overrides_frame)
    qed
    then have "get swcOptions ''sourceMaps'' = get (initial_swcOptions opts) ''sourceMaps''"
      and "''sourceMaps'' \<in> fst ` set swcOptions \<longleftrightarrow>
           ''sourceMaps'' \<in> fst ` set (initial_swcOptions opts)"
      using map_of_eq_None_iff [of swcOptions "''sourceMaps''"]
        map_of_eq_None_iff [of "initial_swcOptions opts" "''sourceMaps''"]
      by (simp_all add: get_def)
    then show ?thesis
      by (simp add: get_initial_swcOptions_sourceMaps keys_initial_swcOptions_sourceMaps)
  qed
  have absent: "get opts ''sourceMaps'' = Undefined \<longrightarrow>
        initial_swcOptions opts =
          [(''jsc'', Obj [(''parser'', Undefined), (''transform'', Obj [])]),
           (''sourceFileName'', get opts ''sourceFileName''),
           (''sourceRoot'', get opts ''sourceRoot''),
           (''configFile'', get opts ''configFile''),
           (''swcrc'', get opts ''swcrc'')]"
    by (simp add: initial_swcOptions_def)
  show ?thesis
    using final absent get_initial_swcOptions_sourceMaps [of opts]
      keys_initial_swcOptions_sourceMaps [of opts]
    by blast
qed

text \<open>
  The file of the examples defines the source maps, and they reach the compiler
  options; \<^verbatim>\<open>--filename a.js --workers 4\<close> defines none, and the compiler options have
  no such field.
\<close>

theorem source_maps_absence_preserved_witness:
  "load_opts example_platform source_maps_example =
     Inr (merge source_maps_example (program_opts source_maps_example)
            (camelCaseEntries [(''out-dir'', Str ''dist''), (''strip-leading-paths'', Bool True),
                               (''source-maps'', Str ''inline'')]))
   \<and> get (merge source_maps_example (program_opts source_maps_example)
            (camelCaseEntries [(''out-dir'', Str ''dist''), (''strip-leading-paths'', Bool True),
                               (''source-maps'', Str ''inline'')])) ''sourceMaps'' = Str ''inline''
   \<and> get (merge source_maps_example (program_opts source_maps_example)
            (camelCaseEntries [(''out-dir'', Str ''dist''), (''strip-leading-paths'', Bool True),
                               (''source-maps'', Str ''inline'')])) ''config'' = Undefined
   \<and> parserArgs example_platform source_maps_example =
       Returned (Some
         ([(''jsc'', Obj [(''parser'', Undefined), (''transform'', Obj [])]),
           (''sourceFileName'', Undefined), (''sourceRoot'', Undefined),
           (''configFile'', Undefined), (''swcrc'', Bool True),
           (''sourceMaps'', Str ''inline'')],
          make_cliOptions
            (merge source_maps_example (program_opts source_maps_example)
               (camelCaseEntries [(''out-dir'', Str ''dist''), (''strip-leading-paths'', Bool True),
                                  (''source-maps'', Str ''inline'')]))
            [''src''] None))
   \<and> get (program_opts (workers_example ''4'')) ''sourceMaps'' = Undefined
   \<and> initial_swcOptions (program_opts (workers_example ''4'')) =
       [(''jsc'', Obj [(''parser'', Undefined), (''transform'', Obj [])]),
        (''sourceFileName'', Undefined), (''sourceRoot'', Undefined),
        (''configFile'', Undefined), (''swcrc'', Bool True)]"
proof -
  let ?opts = "merge source_maps_example (program_opts source_maps_example)
            (camelCaseEntries [(''out-dir'', Str ''dist''), (''strip-leading-paths'', Bool True),
                               (''source-maps'', Str ''inline'')])"
  have l: "load_opts example_platform source_maps_example = Inr ?opts"
    by code_simp
  have g: "get ?opts ''sourceMaps'' = Str ''inline''" "get ?opts ''config'' = Undefined"
    by code_simp+
  have r: "parserArgs example_platform source_maps_example =
       Returned (Some
         ([(''jsc'', Obj [(''parser'', Undefined), (''transform'', Obj [])]),
           (''sourceFileName'', Undefined), (''sourceRoot'', Undefined),
           (''configFile'', Undefined), (''swcrc'', Bool True),
           (''sourceMaps'', Str ''inline'')],
          make_cliOptions ?opts [''src''] None))"
    by code_simp
  have u: "get (program_opts (workers_example ''4'')) ''sourceMaps'' = Undefined"
    by code_simp
  have v: "get (program_opts (workers_example ''4'')) ''sourceFileName'' = Undefined"
    "get (program_opts (workers_example ''4'')) ''sourceRoot'' = Undefined"
    "get (program_opts (workers_example ''4'')) ''configFile'' = Undefined"
    "get (program_opts (workers_example ''4'')) ''swcrc'' = Bool True"
    by code_simp+
  note t = source_maps_absence_preserved [where opts = "program_opts (workers_example ''4'')"]
  from t u have "initial_swcOptions (program_opts (workers_example ''4'')) =
       [(''jsc'', Obj [(''parser'', Undefined), (''transform'', Obj [])]),
        (''sourceFileName'', get (program_opts (workers_example ''4'')) ''sourceFileName''),
        (''sourceRoot'', get (program_opts (workers_example ''4'')) ''sourceRoot''),
        (''configFile'', get (program_opts (workers_example ''4'')) ''configFile''),
        (''swcrc'', get (program_opts (workers_example ''4'')) ''swcrc'')]"
    by blast
  then have i: "initial_swcOptions (program_opts (workers_example ''4'')) =
       [(''jsc'', Obj [(''parser'', Undefined), (''transform'', Obj [])]),
        (''sourceFileName'', Undefined), (''sourceRoot'', Undefined),
        (''configFile'', Undefined), (''swcrc'', Bool True)]"
    by (simp only: v)
  show ?thesis
    using l g r u i by blast
qed

subsection \<open>Accumulation of list-valued flags\<close>

lemma collect_from_array:
  "collect_from (array_of (map Str acc)) (map Some occurrences) =
     Returned (array_of (map Str (acc @ concat (map (split (CHR '','')) occurrences))))"
proof (induction occurrences arbitrary: acc)
  case Nil
  show ?case by simp
next
  case (Cons v occurrences)
  have "collect (Str v) (array_of (map Str acc)) =
      Returned (array_of (map Str (acc @ split (CHR '','') v)))"
    by (simp add: collect_def array_of_def)
  then show ?case
    using Cons.IH [of "acc @ split (CHR '','') v"] by simp
qed

text \<open>
  While every occurrence of the flag has a value, the option resolves to the
  concatenation, in the order of the occurrences, of their comma-separated values.
\<close>

lemma collect_valued_occurrences:
  "occurrences \<noteq> [] \<Longrightarrow>
   collect_occurrences (map Some occurrences) =
     Returned (array_of (map Str (concat (map (split (CHR '','')) occurrences))))"
proof (cases occurrences)
  case Nil
  assume "occurrences \<noteq> []"
  with Nil show ?thesis by simp
next
  case (Cons v vs)
  have "collect (Str v) Undefined = Returned (array_of (map Str (split (CHR '','') v)))"
    by (simp add: collect_def)
  then show ?thesis
    using collect_from_array [of "split (CHR '','') v" vs]
    by (simp add: Cons collect_occurrences_def)
qed

text \<open>
  Claim C4. The claim holds of the occurrences that have a value: \<^verbatim>\<open>--ignore a,b
  --ignore c\<close> resolves to \<^verbatim>\<open>["a","b","c"]\<close>. It fails once an occurrence has none,
  which the declaration \<^verbatim>\<open>--ignore [list]\<close> allows and the comment in \<^verbatim>\<open>collect\<close>
  means to leave without effect (line 244): \<^verbatim>\<open>commander\<close> stores \<^verbatim>\<open>true\<close> for the
  bare occurrence, without a call of \<^verbatim>\<open>collect\<close>. So \<^verbatim>\<open>--ignore a --ignore\<close> resolves to
  \<^verbatim>\<open>true\<close> where the list is \<^verbatim>\<open>["a"]\<close>, and for \<^verbatim>\<open>--ignore --ignore a\<close> the call
  \<^verbatim>\<open>collect("a", true)\<close> ends in a \<^verbatim>\<open>TypeError\<close>, since \<^verbatim>\<open>true\<close> has no method
  \<^verbatim>\<open>concat\<close>.
\<close>

theorem collect_after_bare_occurrence:
  "collect_occurrences [Some ''a,b'', Some ''c''] = Returned (array_of [Str ''a'', Str ''b'', Str ''c''])
   \<and> collect_occurrences [Some ''a'', None] = Returned (Bool True)
   \<and> collect (Str ''a'') (Bool True) = Uncaught_TypeError
   \<and> collect_occurrences [None, Some ''a''] = Uncaught_TypeError"
proof -
  have "collect_occurrences [Some ''a,b'', Some ''c''] =
      Returned (array_of [Str ''a'', Str ''b'', Str ''c''])"
    by code_simp
  moreover have "collect_occurrences [Some ''a'', None] = Returned (Bool True)"
    by code_simp
  moreover have "collect (Str ''a'') (Bool True) = Uncaught_TypeError"
    by code_simp
  moreover have "collect_occurrences [None, Some ''a''] = Uncaught_TypeError"
    by code_simp
  ultimately show ?thesis by blast
qed

end
